theory Spec2Isabelle
  imports Complex_Main
begin

section \<open>Data model\<close>

text \<open>
  The simulator (\<^verbatim>\<open>main.py\<close>) keeps its tests as a list of JSON objects loaded from
  \<^verbatim>\<open>config.json\<close>. Each object is modelled as a record with one field per key the
  handler reads or writes; the JSON documents are taken to be well-typed (every key the
  handler indexes with \<^verbatim>\<open>t["..."]\<close> is present and holds a value of the type
  below). A key read with \<^verbatim>\<open>.get\<close> that may be absent or \<^verbatim>\<open>null\<close> is an
  \<open>option\<close>. A Python float is modelled by the real number it denotes, and float
  arithmetic rounds to binary64 (section on floats below).
\<close>

record data_point =
  delta_t :: real
  value_pt :: real

record channel =
  stage_name :: string
  sub_stage_index :: int
  channel_type :: string
  channel_index :: int
  list_of_data_points :: "data_point list"

record test =
  test_number :: int
  status :: string
  test_description :: string
  specimen_code :: string
  specimen_description :: string
  sample_reception_epoch_time :: int
  customer_id :: int
  test_status_code :: string
  stop_mode_id :: "int option"
  list_of_channel_acquired_data :: "channel list"

text \<open>
  The parameter bag of a request: \<open>param_k p\<close> is \<^verbatim>\<open>params.get("k")\<close>, \<open>None\<close>
  when the key is absent. A request without \<^verbatim>\<open>params\<close> has every field \<open>None\<close>
  (\<^verbatim>\<open>req.params or {}\<close>).
\<close>

record params =
  param_api_key :: "string option"
  param_device_id :: "string option"
  param_test_number :: "int option"
  param_test_description :: "string option"
  param_specimen_code :: "string option"
  param_specimen_description :: "string option"
  param_customer_id :: "int option"
  param_x :: "real option"

text \<open>
  A decoded request (\<^verbatim>\<open>JsonRpcRequest\<close>); \<open>req_method\<close>, \<open>req_id\<close> and
  \<open>req_params\<close> are its fields \<^verbatim>\<open>method\<close>, \<^verbatim>\<open>id\<close> and \<^verbatim>\<open>params\<close>.
\<close>

type_synonym rid = "string + int"

record JsonRpcRequest =
  jsonrpc :: string
  req_method :: string
  req_id :: rid
  req_params :: params

text \<open>
  The parts of \<^verbatim>\<open>config.json\<close> that no handler changes. \<open>API_KEY\<close> is
  \<^verbatim>\<open>config.get("api_key", "CHANGE-ME-SOON")\<close>; \<open>deviceId\<close> and \<open>deviceName\<close> are
  read with \<^verbatim>\<open>config.get\<close>; \<open>list_of_licenses\<close> holds \<^verbatim>\<open>license.get("code")\<close>
  of each license.
\<close>

record config =
  API_KEY :: string
  deviceId :: "string option"
  deviceName :: "string option"
  test_duration_seconds :: int
  list_of_licenses :: "string option list"

text \<open>
  The mutable state: the in-memory list \<^verbatim>\<open>list_of_tests\<close> and the \<^verbatim>\<open>"tests"\<close>
  entry of the file \<^verbatim>\<open>config.json\<close> as last written.
\<close>

record server =
  list_of_tests :: "test list"
  config_json :: "test list"

text \<open>JSON values that occur in responses.\<close>

datatype jvalue =
    JNone
  | JInt int
  | JFloat real
  | JStr string
  | JIntList "int list"
  | JStrList "string option list"
  | JChannels "channel list"
  | JDict "(string \<times> jvalue) list"

type_synonym jdict = "(string \<times> jvalue) list"

text \<open>
  The response envelope \<^verbatim>\<open>{"jsonrpc": "2.0", "id": id, "result": ...}\<close> or
  \<^verbatim>\<open>{"jsonrpc": "2.0", "id": id, "error": ...}\<close>.
\<close>

datatype response = Result rid jvalue | Error rid jdict

definition jsonrpc_response :: "rid \<Rightarrow> jvalue \<Rightarrow> jdict option \<Rightarrow> response" where
  "jsonrpc_response i result error =
     (case error of
        Some (e # es) \<Rightarrow> Error i (e # es)
      | _ \<Rightarrow> Result i result)"

section \<open>Python helpers\<close>

text \<open>\<^verbatim>\<open>str\<close> of an integer, as an f-string renders it.\<close>

definition digit_char :: "nat \<Rightarrow> char" where
  "digit_char d = ''0123456789'' ! d"

function str_nat :: "nat \<Rightarrow> string" where
  "str_nat n = (if n < 10 then [digit_char n] else str_nat (n div 10) @ [digit_char (n mod 10)])"
  by pat_completeness auto
termination
  by (relation "measure (\<lambda>n. n)") auto

declare str_nat.simps [simp del]

definition str_int :: "int \<Rightarrow> string" where
  "str_int i = (if i < 0 then CHR ''-'' # str_nat (nat (- i)) else str_nat (nat i))"

definition str_opt :: "('a \<Rightarrow> string) \<Rightarrow> 'a option \<Rightarrow> string" where
  "str_opt f v = (case v of None \<Rightarrow> ''None'' | Some a \<Rightarrow> f a)"

text \<open>
  Python's \<^verbatim>\<open>float\<close> is IEEE 754 binary64: 53 significant bits, least normal exponent
  \<open>-1022\<close>, results rounded to nearest with ties to even. \<open>float_exponent x\<close> is the
  exponent \<open>e\<close> with \<open>2^e \<le> |x| < 2^(e+1)\<close>, found by halving or doubling into
  \<open>[1, 2)\<close>; \<open>round_double x\<close> is the multiple of the unit in the last place
  \<open>2^(max e (-1022) - 52)\<close> nearest to \<open>x\<close>. Infinities, NaN and the sign of zero are
  not modelled: every float the handler computes on the waveform lies between 0 and 300.
\<close>

function float_exponent :: "real \<Rightarrow> int" where
  "float_exponent x =
     (if 2 \<le> \<bar>x\<bar> then float_exponent (x / 2) + 1
      else if x \<noteq> 0 \<and> \<bar>x\<bar> < 1 then float_exponent (x * 2) - 1
      else 0)"
  by pat_completeness auto
termination
proof (relation "measure (\<lambda>x. if x = 0 then 0 else nat \<bar>\<lfloor>log 2 \<bar>x\<bar>\<rfloor>\<bar>)")
  show "wf (measure (\<lambda>x::real. if x = 0 then 0 else nat \<bar>\<lfloor>log 2 \<bar>x\<bar>\<rfloor>\<bar>))"
    by (rule wf_measure)
next
  fix x :: real
  assume big: "2 \<le> \<bar>x\<bar>"
  then have nz: "x \<noteq> 0" and nz2: "x / 2 \<noteq> 0" by auto
  have "log 2 \<bar>x / 2\<bar> = log 2 (\<bar>x\<bar> / 2)" by simp
  also have "\<dots> = log 2 \<bar>x\<bar> - 1"
    using nz by (simp add: log_divide)
  finally have half: "\<lfloor>log 2 \<bar>x / 2\<bar>\<rfloor> = \<lfloor>log 2 \<bar>x\<bar>\<rfloor> - 1"
    by simp
  from big have "log 2 2 \<le> log 2 \<bar>x\<bar>"
    by (subst log_le_cancel_iff) simp_all
  then have "1 \<le> \<lfloor>log 2 \<bar>x\<bar>\<rfloor>"
    by (simp add: le_floor_iff)
  then have "nat \<bar>\<lfloor>log 2 \<bar>x / 2\<bar>\<rfloor>\<bar> < nat \<bar>\<lfloor>log 2 \<bar>x\<bar>\<rfloor>\<bar>"
    unfolding half by linarith
  then show "(x / 2, x) \<in> measure (\<lambda>x. if x = 0 then 0 else nat \<bar>\<lfloor>log 2 \<bar>x\<bar>\<rfloor>\<bar>)"
    unfolding in_measure if_not_P [OF nz] if_not_P [OF nz2] .
next
  fix x :: real
  assume "\<not> 2 \<le> \<bar>x\<bar>" and small: "x \<noteq> 0 \<and> \<bar>x\<bar> < 1"
  then have nz: "x \<noteq> 0" and nz2: "x * 2 \<noteq> 0" by auto
  have "log 2 \<bar>x * 2\<bar> = log 2 (\<bar>x\<bar> * 2)" by (simp add: abs_mult)
  also have "\<dots> = log 2 \<bar>x\<bar> + 1"
    using small by (simp add: log_mult)
  finally have twice: "\<lfloor>log 2 \<bar>x * 2\<bar>\<rfloor> = \<lfloor>log 2 \<bar>x\<bar>\<rfloor> + 1"
    by simp
  from small have "log 2 \<bar>x\<bar> < log 2 1"
    by (subst log_less_cancel_iff) simp_all
  then have "\<lfloor>log 2 \<bar>x\<bar>\<rfloor> < 0"
    by (simp add: floor_less_iff)
  then have "nat \<bar>\<lfloor>log 2 \<bar>x * 2\<bar>\<rfloor>\<bar> < nat \<bar>\<lfloor>log 2 \<bar>x\<bar>\<rfloor>\<bar>"
    unfolding twice by linarith
  then show "(x * 2, x) \<in> measure (\<lambda>x. if x = 0 then 0 else nat \<bar>\<lfloor>log 2 \<bar>x\<bar>\<rfloor>\<bar>)"
    unfolding in_measure if_not_P [OF nz] if_not_P [OF nz2] .
qed

declare float_exponent.simps [simp del]

definition round_half_even :: "real \<Rightarrow> int" where
  "round_half_even r =
     (let f = \<lfloor>r\<rfloor>; d = r - of_int f
      in if d < 1 / 2 then f else if 1 / 2 < d then f + 1 else if even f then f else f + 1)"

definition round_double :: "real \<Rightarrow> real" where
  "round_double x =
     (let ulp = 2 powi (max (float_exponent x) (- 1022) - 52)
      in of_int (round_half_even (x / ulp)) * ulp)"

text \<open>\<^verbatim>\<open>range(start, stop, step)\<close> for a positive step.\<close>

function py_range :: "int \<Rightarrow> int \<Rightarrow> int \<Rightarrow> int list" where
  "py_range i stop step =
     (if 0 < step \<and> i < stop then i # py_range (i + step) stop step else [])"
  by pat_completeness auto
termination
  by (relation "measure (\<lambda>(i, stop, step). nat (stop - i))") auto

declare py_range.simps [simp del]

text \<open>
  \<^verbatim>\<open>xs[i]\<close>: a negative index counts from the end, an index out of range raises
  \<^verbatim>\<open>IndexError\<close> (\<open>None\<close>).
\<close>

definition py_getitem :: "'a list \<Rightarrow> int \<Rightarrow> 'a option" where
  "py_getitem xs i =
     (let k = (if i < 0 then i + int (length xs) else i)
      in if k < 0 \<or> int (length xs) \<le> k then None else Some (xs ! nat k))"

text \<open>
  \<^verbatim>\<open>next((t for t in list_of_tests if t["test_number"] == test_number), None)\<close>:
  the first test with the given number. Python returns a reference to the stored object,
  which the handlers then mutate in place; the model returns its index.
\<close>

fun find_test :: "test list \<Rightarrow> int option \<Rightarrow> nat option" where
  "find_test [] n = None"
| "find_test (t # ts) n =
     (if Some (test_number t) = n then Some 0 else map_option Suc (find_test ts n))"

text \<open>
  \<^verbatim>\<open>with open("config.json", "w") as f: config["tests"] = list_of_tests; json.dump(config, f, indent=2)\<close>
  The write itself is taken to succeed.
\<close>

definition dump_config :: "server \<Rightarrow> server" where
  "dump_config s = s\<lparr>config_json := list_of_tests s\<rparr>"

section \<open>The JSON-RPC handler\<close>

text \<open>
  The two error objects that several branches of \<^verbatim>\<open>jsonrpc_handler\<close> build with
  the same f-strings.
\<close>

definition device_not_found :: "JsonRpcRequest \<Rightarrow> jdict" where
  "device_not_found req =
     [(''code'', JInt (- 1)),
      (''message'', JStr (''Device ID '' @ str_opt (\<lambda>d. d) (param_device_id (req_params req)) @ '' not found''))]"

definition test_not_found :: "JsonRpcRequest \<Rightarrow> jdict" where
  "test_not_found req =
     [(''code'', JInt (- 1)),
      (''message'', JStr (''Test number '' @ str_opt str_int (param_test_number (req_params req)) @ '' not found''))]"

text \<open>
  \<^verbatim>\<open>int(time.time()) - test["sample_reception_epoch_time"] >= config.get("test_duration_seconds")\<close>,
  where \<open>now\<close> is \<^verbatim>\<open>int(time.time())\<close>.
\<close>

definition duration_elapsed :: "config \<Rightarrow> int \<Rightarrow> test \<Rightarrow> bool" where
  "duration_elapsed cfg now t \<longleftrightarrow> now - sample_reception_epoch_time t \<ge> test_duration_seconds cfg"

text \<open>Branch \<^verbatim>\<open>getTestInfoAndStatus\<close> (lines 108-132).\<close>

definition getTestInfoAndStatus :: "config \<Rightarrow> int \<Rightarrow> JsonRpcRequest \<Rightarrow> server \<Rightarrow> response \<times> server" where
  "getTestInfoAndStatus cfg now req s =
     (if param_device_id (req_params req) \<noteq> deviceId cfg
      then (jsonrpc_response (req_id req) JNone (Some (device_not_found req)), s)
      else case find_test (list_of_tests s) (param_test_number (req_params req)) of
        None \<Rightarrow> (jsonrpc_response (req_id req) JNone (Some (test_not_found req)), s)
      | Some i \<Rightarrow>
          let t = list_of_tests s ! i;
              t = (if test_status_code t = ''RUN'' \<and> duration_elapsed cfg now t
                   then t\<lparr>test_status_code := ''END'', stop_mode_id := Some 2\<rparr> else t);
              s = s\<lparr>list_of_tests := (list_of_tests s)[i := t]\<rparr>;
              s = dump_config s
          in (jsonrpc_response (req_id req) (JDict
                [(''status'', JStr ''OK''),
                 (''test_description'', JStr (test_description t)),
                 (''specimen_code'', JStr (specimen_code t)),
                 (''specimen_description'', JStr (specimen_description t)),
                 (''sample_reception_epoch_time'', JInt (sample_reception_epoch_time t)),
                 (''customer_id'', JInt (customer_id t)),
                 (''test_status_code'', JStr (test_status_code t))]) None, s))"

text \<open>
  Branch \<^verbatim>\<open>getTestAcquiredDataAndResults\<close> (lines 155-172); it has no
  \<^verbatim>\<open>device_id\<close> check.
\<close>

definition getTestAcquiredDataAndResults :: "config \<Rightarrow> int \<Rightarrow> JsonRpcRequest \<Rightarrow> server \<Rightarrow> response \<times> server" where
  "getTestAcquiredDataAndResults cfg now req s =
     (case find_test (list_of_tests s) (param_test_number (req_params req)) of
        None \<Rightarrow> (jsonrpc_response (req_id req) JNone (Some (test_not_found req)), s)
      | Some i \<Rightarrow>
          let t = list_of_tests s ! i;
              t = (if test_status_code t = ''RUN'' \<and> duration_elapsed cfg now t
                   then t\<lparr>test_status_code := ''END'', stop_mode_id := Some 2\<rparr> else t);
              s = s\<lparr>list_of_tests := (list_of_tests s)[i := t]\<rparr>;
              s = dump_config s
          in (jsonrpc_response (req_id req) (JDict
                [(''status'', JStr ''OK''),
                 (''list_of_channel_acquired_data'', JChannels (list_of_channel_acquired_data t)),
                 (''stop_mode_id'', (case stop_mode_id t of None \<Rightarrow> JNone | Some m \<Rightarrow> JInt m))]) None, s))"

text \<open>
  The loop of lines 189-194 over \<^verbatim>\<open>range(0, 100_00, 5)\<close>, with \<open>maxNewton\<close> the
  float drawn by \<^verbatim>\<open>random.uniform(50, 100)\<close>. \<^verbatim>\<open>x/100\<close> divides two integers
  and is the quotient correctly rounded to a float; \<^verbatim>\<open>maxNewton * 2\<close> and the sum
  \<^verbatim>\<open>-x + (maxNewton * 2)\<close> are each rounded; negation and \<^verbatim>\<open><\<close> are exact.
\<close>

definition results_data :: "real \<Rightarrow> data_point list" where
  "results_data maxNewton =
     map (\<lambda>x. let x = round_double (real_of_int x / 100);
                  y = (if x < maxNewton then x else round_double (- x + round_double (maxNewton * 2)))
              in \<lparr>delta_t = x, value_pt = y\<rparr>)
         (py_range 0 10000 5)"

text \<open>
  Branch \<^verbatim>\<open>cloneAndStartTest\<close> (lines 174-219). An \<^verbatim>\<open>IndexError\<close> raised by
  \<^verbatim>\<open>list_of_tests[new_test_number - 1]\<close> is caught by the handler's
  \<^verbatim>\<open>except Exception\<close> (line 267).
\<close>

definition cloneAndStartTest :: "config \<Rightarrow> int \<Rightarrow> real \<Rightarrow> JsonRpcRequest \<Rightarrow> server \<Rightarrow> response \<times> server" where
  "cloneAndStartTest cfg now maxNewton req s =
     (if param_device_id (req_params req) \<noteq> deviceId cfg
      then (jsonrpc_response (req_id req) JNone (Some (device_not_found req)), s)
      else case find_test (list_of_tests s) (param_test_number (req_params req)) of
        None \<Rightarrow> (jsonrpc_response (req_id req) JNone (Some (test_not_found req)), s)
      | Some i \<Rightarrow>
          let new_test_number = int (length (list_of_tests s))
          in (case py_getitem (list_of_tests s) (new_test_number - 1) of
               None \<Rightarrow> (jsonrpc_response (req_id req) JNone
                          (Some [(''code'', JInt (- 32000)), (''message'', JStr ''list index out of range'')]), s)
             | Some l \<Rightarrow>
                 if test_status_code l = ''RUN''
                 then (jsonrpc_response (req_id req) JNone
                         (Some [(''code'', JInt (- 1)), (''message'', JStr ''Cannot clone a running test'')]), s)
                 else
                   let p = req_params req;
                       new_test = \<lparr>
                         test_number = new_test_number,
                         status = ''OK'',
                         test_description = (case param_test_description p of None \<Rightarrow> ''Cloned Test'' | Some d \<Rightarrow> d),
                         specimen_code = (case param_specimen_code p of None \<Rightarrow> ''001'' | Some c \<Rightarrow> c),
                         specimen_description = (case param_specimen_description p of None \<Rightarrow> ''Cloned Specimen'' | Some d \<Rightarrow> d),
                         sample_reception_epoch_time = now,
                         customer_id = (case param_customer_id p of None \<Rightarrow> 1 | Some c \<Rightarrow> c),
                         test_status_code = ''RUN'',
                         stop_mode_id = None,
                         list_of_channel_acquired_data = [\<lparr>
                           stage_name = ''COMPRESSION_STAGE'',
                           sub_stage_index = 1,
                           channel_type = ''Analog'',
                           channel_index = 1,
                           list_of_data_points = results_data maxNewton\<rparr>]\<rparr>;
                       s = s\<lparr>list_of_tests := list_of_tests s @ [new_test]\<rparr>;
                       s = dump_config s
                   in (jsonrpc_response (req_id req)
                         (JDict [(''status'', JStr ''OK''), (''new_test_number'', JInt new_test_number)]) None, s)))"

text \<open>Branch \<^verbatim>\<open>continueTest\<close> (lines 221-238).\<close>

definition continueTest :: "config \<Rightarrow> int \<Rightarrow> JsonRpcRequest \<Rightarrow> server \<Rightarrow> response \<times> server" where
  "continueTest cfg now req s =
     (if param_device_id (req_params req) \<noteq> deviceId cfg
      then (jsonrpc_response (req_id req) JNone (Some (device_not_found req)), s)
      else case find_test (list_of_tests s) (param_test_number (req_params req)) of
        None \<Rightarrow> (jsonrpc_response (req_id req) JNone (Some (test_not_found req)), s)
      | Some i \<Rightarrow>
          let t = list_of_tests s ! i
          in if test_status_code t \<noteq> ''PAUSE''
             then (jsonrpc_response (req_id req) JNone
                     (Some [(''code'', JInt (- 1)), (''status'', JStr ''TEST NOT IN PAUSE'')]), s)
             else
               let t = t\<lparr>test_status_code := ''RUN''\<rparr>;
                   t = t\<lparr>sample_reception_epoch_time := now\<rparr>;
                   s = s\<lparr>list_of_tests := (list_of_tests s)[i := t]\<rparr>;
                   s = dump_config s
               in (jsonrpc_response (req_id req) (JDict [(''status'', JStr ''OK'')]) None, s))"

text \<open>
  Branch \<^verbatim>\<open>stopTest\<close> (lines 240-261). The branch of line 251 returns before the
  \<^verbatim>\<open>json.dump\<close> of lines 257-259.
\<close>

definition stopTest :: "config \<Rightarrow> int \<Rightarrow> JsonRpcRequest \<Rightarrow> server \<Rightarrow> response \<times> server" where
  "stopTest cfg now req s =
     (if param_device_id (req_params req) \<noteq> deviceId cfg
      then (jsonrpc_response (req_id req) JNone (Some (device_not_found req)), s)
      else case find_test (list_of_tests s) (param_test_number (req_params req)) of
        None \<Rightarrow> (jsonrpc_response (req_id req) JNone (Some (test_not_found req)), s)
      | Some i \<Rightarrow>
          let t = list_of_tests s ! i
          in if test_status_code t \<noteq> ''RUN''
             then (jsonrpc_response (req_id req) JNone
                     (Some [(''code'', JInt (- 1)),
                            (''message'', JStr (''Test number '' @ str_opt str_int (param_test_number (req_params req)) @ '' is not running''))]), s)
             else if duration_elapsed cfg now t
             then
               let t = t\<lparr>test_status_code := ''END''\<rparr>;
                   t = t\<lparr>stop_mode_id := Some 2\<rparr>;
                   s = s\<lparr>list_of_tests := (list_of_tests s)[i := t]\<rparr>
               in (jsonrpc_response (req_id req) JNone
                     (Some [(''code'', JInt (- 1)), (''status'', JStr ''TEST NOT STOPPABLE'')]), s)
             else
               let t = t\<lparr>test_status_code := ''PAUSE''\<rparr>;
                   s = s\<lparr>list_of_tests := (list_of_tests s)[i := t]\<rparr>;
                   s = dump_config s
               in (jsonrpc_response (req_id req) (JDict [(''status'', JStr ''OK'')]) None, s))"

text \<open>
  \<^verbatim>\<open>jsonrpc_handler\<close> (lines 45-268). \<open>now\<close> is the value of
  \<^verbatim>\<open>int(time.time())\<close> and \<open>maxNewton\<close> the value of \<^verbatim>\<open>random.uniform(50, 100)\<close>
  during the call; every branch reads each at most once. The first \<^verbatim>\<open>if\<close> chain
  (lines 52-62) returns in both of its branches; the second one starts with the
  \<^verbatim>\<open>api_key\<close> comparison of line 64.
\<close>

definition jsonrpc_handler :: "config \<Rightarrow> int \<Rightarrow> real \<Rightarrow> JsonRpcRequest \<Rightarrow> server \<Rightarrow> response \<times> server" where
  "jsonrpc_handler cfg now maxNewton req s =
     (let m = req_method req; p = req_params req
      in
      if m = ''getRevision'' then (jsonrpc_response (req_id req) (JStr ''0.3'') None, s)
      else if m = ''sqrt'' then
        (case param_x p of
           None \<Rightarrow> (jsonrpc_response (req_id req) JNone
                      (Some [(''code'', JInt (- 1)),
                             (''message'', JStr ''Error in doSqrt: sqrt is only applicable to non-negative values'')]), s)
         | Some x \<Rightarrow>
             if x < 0
             then (jsonrpc_response (req_id req) JNone
                     (Some [(''code'', JInt (- 1)),
                            (''message'', JStr ''Error in doSqrt: sqrt is only applicable to non-negative values'')]), s)
             else (jsonrpc_response (req_id req) (JDict [(''status'', JStr ''OK''), (''y'', JFloat (round_double (sqrt x)))]) None, s))
      else if param_api_key p \<noteq> Some (API_KEY cfg)
      then (jsonrpc_response (req_id req) JNone
              (Some [(''code'', JInt (- 401)), (''message'', JStr ''Invalid API key'')]), s)
      else if m = ''getListOfAllMachines''
      then (jsonrpc_response (req_id req) (JDict
              [(''status'', JStr ''OK''),
               (''list_of_all_device_ids'', JStrList [deviceId cfg, Some ''756200G-0E-0028000C'', Some ''28XYPP-05-00470034''])]) None, s)
      else if m = ''getMachineIdentity''
      then (if param_device_id p \<noteq> deviceId cfg
            then (jsonrpc_response (req_id req) JNone (Some (device_not_found req)), s)
            else (jsonrpc_response (req_id req) (JDict
                    [(''status'', JStr ''OK''),
                     (''machine_name'', (case deviceName cfg of None \<Rightarrow> JNone | Some n \<Rightarrow> JStr n)),
                     (''machine_type_id'', JInt 256),
                     (''list_of_license_codes'', JStrList (list_of_licenses cfg))]) None, s))
      else if m = ''getMachineStatus''
      then (if param_device_id p \<noteq> deviceId cfg
            then (jsonrpc_response (req_id req) JNone (Some (device_not_found req)), s)
            else (jsonrpc_response (req_id req) (JDict [(''status'', JStr ''OK''), (''machine_status_id'', JInt 2)]) None, s))
      else if m = ''getListOfAllTests''
      then (if param_device_id p \<noteq> deviceId cfg
            then (jsonrpc_response (req_id req) JNone (Some (device_not_found req)), s)
            else (jsonrpc_response (req_id req) (JDict
                    [(''status'', JStr ''OK''),
                     (''list_of_all_test_numbers'', JIntList (map test_number (list_of_tests s)))]) None, s))
      else if m = ''getListOfAllTestsBySpecimenCode''
      then (if param_device_id p \<noteq> deviceId cfg
            then (jsonrpc_response (req_id req) JNone (Some (device_not_found req)), s)
            else
              let matching_tests = filter (\<lambda>t. Some (specimen_code t) = param_specimen_code p) (list_of_tests s)
              in if matching_tests = []
                 then (jsonrpc_response (req_id req) JNone
                         (Some [(''code'', JInt (- 1)),
                                (''message'', JStr (''No tests found for specimen code '' @ str_opt (\<lambda>c. c) (param_specimen_code p)))]), s)
                 else (jsonrpc_response (req_id req) (JDict
                         [(''status'', JStr ''OK''), (''message'', JStr ''Method not implemented yet'')]) None, s))
      else if m = ''getTestInfoAndStatus'' then getTestInfoAndStatus cfg now req s
      else if m = ''getCustomer''
      then (jsonrpc_response (req_id req) (JDict
              [(''status'', JStr ''OK''), (''description'', JStr ''PNN Scavi SRL''), (''address'', JStr ''123 Test Street''),
               (''phone1'', JStr ''000111222''), (''phone2'', JNone), (''email'', JStr ''test@example.com''),
               (''contact1'', JStr ''John Doe''), (''contact2'', JNone), (''annotation'', JNone)]) None, s)
      else if m = ''getListOfAllCustomers''
      then (jsonrpc_response (req_id req) (JDict
              [(''status'', JStr ''OK''), (''list_of_all_customers'', JIntList [1, 2, 3, 4])]) None, s)
      else if m = ''getTestAcquisitionSettings''
      then (if param_device_id p \<noteq> deviceId cfg
            then (jsonrpc_response (req_id req) JNone (Some (device_not_found req)), s)
            else case find_test (list_of_tests s) (param_test_number p) of
              None \<Rightarrow> (jsonrpc_response (req_id req) JNone (Some (test_not_found req)), s)
            | Some i \<Rightarrow> (jsonrpc_response (req_id req) (JDict
                  [(''status'', JStr ''OK''), (''profile_id'', JInt 1), (''list_of_stages'', JStr ''Not implemented yet'')]) None, s))
      else if m = ''getTestAcquiredDataAndResults'' then getTestAcquiredDataAndResults cfg now req s
      else if m = ''cloneAndStartTest'' then cloneAndStartTest cfg now maxNewton req s
      else if m = ''continueTest'' then continueTest cfg now req s
      else if m = ''stopTest'' then stopTest cfg now req s
      else (jsonrpc_response (req_id req) JNone
              (Some [(''code'', JInt (- 32601)), (''message'', JStr (''Method '' @ m @ '' not implemented''))]), s))"

text \<open>
  The server handles one request after the other on the shared state; a call is the
  request together with the clock reading and the random draw it sees.
\<close>

fun run_calls :: "config \<Rightarrow> (int \<times> real \<times> JsonRpcRequest) list \<Rightarrow> server \<Rightarrow> server" where
  "run_calls cfg [] s = s"
| "run_calls cfg ((now, maxNewton, req) # calls) s =
     run_calls cfg calls (snd (jsonrpc_handler cfg now maxNewton req s))"

text \<open>\<^verbatim>\<open>res["result"].get(k)\<close> of a response, as a client reads it.\<close>

definition result_field :: "string \<Rightarrow> response \<Rightarrow> jvalue option" where
  "result_field k r = (case r of Result i (JDict d) \<Rightarrow> map_of d k | _ \<Rightarrow> None)"

text \<open>\<^verbatim>\<open>res["error"]["code"]\<close> of a response.\<close>

definition error_code :: "response \<Rightarrow> jvalue option" where
  "error_code r = (case r of Error i e \<Rightarrow> map_of e ''code'' | _ \<Rightarrow> None)"

section \<open>Example data\<close>

text \<open>
  The configuration, the two stored tests and the requests of the repository's test
  suite (\<^verbatim>\<open>tests/Compression_test.py\<close>, \<^verbatim>\<open>write_config\<close> and \<^verbatim>\<open>rpc\<close>).
\<close>

definition example_config :: config where
  "example_config = \<lparr>API_KEY = ''TESTKEY'', deviceId = Some ''DEV-1'', deviceName = Some ''SimMachine'',
     test_duration_seconds = 60, list_of_licenses = [Some ''LIC-AAA'', Some ''LIC-BBB'']\<rparr>"

definition example_test :: "int \<Rightarrow> string \<Rightarrow> string \<Rightarrow> string \<Rightarrow> string \<Rightarrow> int option \<Rightarrow> test" where
  "example_test n d c sd st sm =
     \<lparr>test_number = n, status = ''OK'', test_description = d, specimen_code = c,
      specimen_description = sd, sample_reception_epoch_time = 1000000000, customer_id = 1,
      test_status_code = st, stop_mode_id = sm, list_of_channel_acquired_data = []\<rparr>"

definition example_tests :: "test list" where
  "example_tests =
     [example_test 0 ''T0'' ''001'' ''Spec0'' ''END'' (Some 2),
      example_test 1 ''T1'' ''002'' ''Spec1'' ''PAUSE'' None]"

definition example_server :: server where
  "example_server = \<lparr>list_of_tests = example_tests, config_json = example_tests\<rparr>"

definition example_request :: "string \<Rightarrow> int \<Rightarrow> string \<Rightarrow> string option \<Rightarrow> int option \<Rightarrow> JsonRpcRequest" where
  "example_request m i k d n =
     \<lparr>jsonrpc = ''2.0'', req_method = m, req_id = Inr i,
      req_params = \<lparr>param_api_key = Some k, param_device_id = d, param_test_number = n,
        param_test_description = None, param_specimen_code = None, param_specimen_description = None,
        param_customer_id = None, param_x = None\<rparr>\<rparr>"

text \<open>
  The same registry after the test suite has put test 1 into \<^verbatim>\<open>RUN\<close> and given it
  one channel of acquired data.
\<close>

definition example_running :: server where
  "example_running =
     \<lparr>list_of_tests =
        [example_test 0 ''T0'' ''001'' ''Spec0'' ''END'' (Some 2),
         (example_test 1 ''T1'' ''002'' ''Spec1'' ''RUN'' None)\<lparr>list_of_channel_acquired_data :=
            [\<lparr>stage_name = ''S'', sub_stage_index = 1, channel_type = ''Analog'', channel_index = 1,
              list_of_data_points = []\<rparr>]\<rparr>],
      config_json =
        [example_test 0 ''T0'' ''001'' ''Spec0'' ''END'' (Some 2),
         (example_test 1 ''T1'' ''002'' ''Spec1'' ''RUN'' None)\<lparr>list_of_channel_acquired_data :=
            [\<lparr>stage_name = ''S'', sub_stage_index = 1, channel_type = ''Analog'', channel_index = 1,
              list_of_data_points = []\<rparr>]\<rparr>]\<rparr>"

text \<open>
  The branch of \<^verbatim>\<open>stopTest\<close> at line 251 is taken: the request passes both guards,
  names a stored test in \<^verbatim>\<open>RUN\<close>, and the duration has elapsed.
\<close>

definition stop_elapsed_path :: "config \<Rightarrow> int \<Rightarrow> JsonRpcRequest \<Rightarrow> server \<Rightarrow> bool" where
  "stop_elapsed_path cfg now req s \<longleftrightarrow>
     req_method req = ''stopTest'' \<and>
     param_api_key (req_params req) = Some (API_KEY cfg) \<and>
     param_device_id (req_params req) = deviceId cfg \<and>
     (case find_test (list_of_tests s) (param_test_number (req_params req)) of
        None \<Rightarrow> False
      | Some i \<Rightarrow> test_status_code (list_of_tests s ! i) = ''RUN'' \<and>
          now - sample_reception_epoch_time (list_of_tests s ! i) \<ge> test_duration_seconds cfg)"

section \<open>Lookup and dispatch\<close>

lemma find_test_Some:
  "find_test ts n = Some i \<Longrightarrow> i < length ts \<and> n = Some (test_number (ts ! i))"
proof (induction ts arbitrary: i)
  case Nil
  then show ?case by simp
next
  case (Cons t ts)
  then show ?case by (auto split: if_splits)
qed

text \<open>
  When the stored test numbers are distinct (the registry's invariant), every stored test
  is the one its own number resolves to.
\<close>

lemma find_test_distinct:
  "distinct (map test_number ts) \<Longrightarrow> i < length ts \<Longrightarrow>
   find_test ts (Some (test_number (ts ! i))) = Some i"
proof (induction ts arbitrary: i)
  case Nil
  then show ?case by simp
next
  case (Cons a ts)
  show ?case
  proof (cases i)
    case 0
    then show ?thesis by simp
  next
    case (Suc j)
    with Cons.prems have j: "j < length ts" by simp
    then have "test_number (ts ! j) \<in> test_number ` set ts" by simp
    with Cons.prems have "test_number a \<noteq> test_number (ts ! j)" by auto
    with Cons.IH [of j] Cons.prems j Suc show ?thesis by simp
  qed
qed

text \<open>With a valid key the handler runs the branch of the method.\<close>

lemma handler_authorised:
  assumes "param_api_key (req_params req) = Some (API_KEY cfg)"
  shows "req_method req = ''getTestInfoAndStatus'' \<Longrightarrow>
           jsonrpc_handler cfg now maxNewton req s = getTestInfoAndStatus cfg now req s"
    and "req_method req = ''getTestAcquiredDataAndResults'' \<Longrightarrow>
           jsonrpc_handler cfg now maxNewton req s = getTestAcquiredDataAndResults cfg now req s"
    and "req_method req = ''cloneAndStartTest'' \<Longrightarrow>
           jsonrpc_handler cfg now maxNewton req s = cloneAndStartTest cfg now maxNewton req s"
    and "req_method req = ''continueTest'' \<Longrightarrow>
           jsonrpc_handler cfg now maxNewton req s = continueTest cfg now req s"
    and "req_method req = ''stopTest'' \<Longrightarrow>
           jsonrpc_handler cfg now maxNewton req s = stopTest cfg now req s"
  using assms by (simp_all add: jsonrpc_handler_def)

lemma str_int_7: "str_int 7 = ''7''"
  by (simp add: str_int_def str_nat.simps digit_char_def)

lemma py_getitem_last:
  "xs \<noteq> [] \<Longrightarrow> py_getitem xs (int (length xs) - 1) = Some (last xs)"
  by (cases xs rule: rev_cases) (simp_all add: py_getitem_def)

section \<open>The authentication guard\<close>

text \<open>
  Claim C6. For every method other than \<^verbatim>\<open>getRevision\<close> and \<^verbatim>\<open>sqrt\<close>, a request
  whose \<^verbatim>\<open>api_key\<close> parameter differs from the configured secret (or is absent) is
  answered with error code \<open>-401\<close> before any method branch runs, and the state (the
  in-memory registry and the file) is left as it was.
\<close>

theorem api_key_mismatch_rejected:
  assumes "req_method req \<noteq> ''getRevision''" and "req_method req \<noteq> ''sqrt''"
    and "param_api_key (req_params req) \<noteq> Some (API_KEY cfg)"
  shows "jsonrpc_handler cfg now maxNewton req s =
    (Error (req_id req) [(''code'', JInt (- 401)), (''message'', JStr ''Invalid API key'')], s)"
  using assms by (simp add: jsonrpc_handler_def jsonrpc_response_def)

theorem api_key_mismatch_rejected_witness:
  "req_method (example_request ''getListOfAllMachines'' 10 ''WRONG'' None None) \<noteq> ''getRevision'' \<and>
   req_method (example_request ''getListOfAllMachines'' 10 ''WRONG'' None None) \<noteq> ''sqrt'' \<and>
   param_api_key (req_params (example_request ''getListOfAllMachines'' 10 ''WRONG'' None None)) \<noteq> Some (API_KEY example_config) \<and>
   jsonrpc_handler example_config 2000000000 75 (example_request ''getListOfAllMachines'' 10 ''WRONG'' None None) example_server =
     (Error (Inr 10) [(''code'', JInt (- 401)), (''message'', JStr ''Invalid API key'')], example_server)"
  using api_key_mismatch_rejected [of "example_request ''getListOfAllMachines'' 10 ''WRONG'' None None"
      example_config 2000000000 75 example_server]
  by (simp add: example_request_def example_config_def)

section \<open>Continue and stop\<close>

text \<open>
  Claim C8. For a \<^verbatim>\<open>continueTest\<close> call that passes the guards and names an existing
  test (the one \<open>find_test\<close> resolves the number to): if the test's status is not \<^verbatim>\<open>PAUSE\<close> the call fails with error code \<open>-1\<close>
  and nothing changes; if it is \<^verbatim>\<open>PAUSE\<close> the call succeeds, the test's status becomes
  \<^verbatim>\<open>RUN\<close> and its \<^verbatim>\<open>sample_reception_epoch_time\<close> the current time (and the registry
  is written to the file).
\<close>

theorem continueTest_only_from_pause:
  assumes "req_method req = ''continueTest''"
    and "param_api_key (req_params req) = Some (API_KEY cfg)"
    and "param_device_id (req_params req) = deviceId cfg"
    and "find_test (list_of_tests s) (param_test_number (req_params req)) = Some i"
  shows "jsonrpc_handler cfg now maxNewton req s =
    (if test_status_code (list_of_tests s ! i) \<noteq> ''PAUSE''
     then (Error (req_id req) [(''code'', JInt (- 1)), (''status'', JStr ''TEST NOT IN PAUSE'')], s)
     else (Result (req_id req) (JDict [(''status'', JStr ''OK'')]),
           s\<lparr>list_of_tests := (list_of_tests s)
              [i := (list_of_tests s ! i)\<lparr>test_status_code := ''RUN'', sample_reception_epoch_time := now\<rparr>],
            config_json := (list_of_tests s)
              [i := (list_of_tests s ! i)\<lparr>test_status_code := ''RUN'', sample_reception_epoch_time := now\<rparr>]\<rparr>))"
  using assms
  by (simp add: handler_authorised continueTest_def jsonrpc_response_def dump_config_def Let_def)

theorem continueTest_only_from_pause_witness:
  "req_method (example_request ''continueTest'' 40 ''TESTKEY'' (Some ''DEV-1'') (Some 1)) = ''continueTest'' \<and>
   param_api_key (req_params (example_request ''continueTest'' 40 ''TESTKEY'' (Some ''DEV-1'') (Some 1))) = Some (API_KEY example_config) \<and>
   param_device_id (req_params (example_request ''continueTest'' 40 ''TESTKEY'' (Some ''DEV-1'') (Some 1))) = deviceId example_config \<and>
   find_test (list_of_tests example_server) (param_test_number (req_params (example_request ''continueTest'' 40 ''TESTKEY'' (Some ''DEV-1'') (Some 1)))) = Some 1 \<and>
   test_status_code (list_of_tests example_server ! 1) = ''PAUSE'' \<and>
   fst (jsonrpc_handler example_config 3000000000 75 (example_request ''continueTest'' 40 ''TESTKEY'' (Some ''DEV-1'') (Some 1)) example_server)
     = Result (Inr 40) (JDict [(''status'', JStr ''OK'')]) \<and>
   test_status_code (list_of_tests (snd (jsonrpc_handler example_config 3000000000 75
       (example_request ''continueTest'' 40 ''TESTKEY'' (Some ''DEV-1'') (Some 1)) example_server)) ! 1) = ''RUN''"
  using continueTest_only_from_pause [of "example_request ''continueTest'' 40 ''TESTKEY'' (Some ''DEV-1'') (Some 1)"
      example_config example_server 1 3000000000 75]
  by (simp add: example_request_def example_config_def example_server_def example_tests_def
      example_test_def)

text \<open>
  Claim C3. For a \<^verbatim>\<open>stopTest\<close> call that passes the guards and names a test in status
  \<^verbatim>\<open>RUN\<close>: exactly when the elapsed time \<open>now - sample_reception_epoch_time\<close> is
  strictly below the configured duration the call returns a result and sets the status to
  \<^verbatim>\<open>PAUSE\<close>; otherwise it sets the status to \<^verbatim>\<open>END\<close> and \<^verbatim>\<open>stop_mode_id\<close> to
  \<open>2\<close> and returns an error.
\<close>

theorem stopTest_pause_or_end:
  assumes "req_method req = ''stopTest''"
    and "param_api_key (req_params req) = Some (API_KEY cfg)"
    and "param_device_id (req_params req) = deviceId cfg"
    and "find_test (list_of_tests s) (param_test_number (req_params req)) = Some i"
    and "test_status_code (list_of_tests s ! i) = ''RUN''"
  shows "jsonrpc_handler cfg now maxNewton req s =
    (if now - sample_reception_epoch_time (list_of_tests s ! i) < test_duration_seconds cfg
     then (Result (req_id req) (JDict [(''status'', JStr ''OK'')]),
           s\<lparr>list_of_tests := (list_of_tests s)[i := (list_of_tests s ! i)\<lparr>test_status_code := ''PAUSE''\<rparr>],
             config_json := (list_of_tests s)[i := (list_of_tests s ! i)\<lparr>test_status_code := ''PAUSE''\<rparr>]\<rparr>)
     else (Error (req_id req) [(''code'', JInt (- 1)), (''status'', JStr ''TEST NOT STOPPABLE'')],
           s\<lparr>list_of_tests := (list_of_tests s)
             [i := (list_of_tests s ! i)\<lparr>test_status_code := ''END'', stop_mode_id := Some 2\<rparr>]\<rparr>))"
  using assms
  by (simp add: handler_authorised stopTest_def jsonrpc_response_def dump_config_def Let_def
      duration_elapsed_def not_less)

theorem stopTest_pause_or_end_witness:
  "req_method (example_request ''stopTest'' 50 ''TESTKEY'' (Some ''DEV-1'') (Some 1)) = ''stopTest'' \<and>
   param_api_key (req_params (example_request ''stopTest'' 50 ''TESTKEY'' (Some ''DEV-1'') (Some 1))) = Some (API_KEY example_config) \<and>
   param_device_id (req_params (example_request ''stopTest'' 50 ''TESTKEY'' (Some ''DEV-1'') (Some 1))) = deviceId example_config \<and>
   find_test (list_of_tests example_running) (param_test_number (req_params (example_request ''stopTest'' 50 ''TESTKEY'' (Some ''DEV-1'') (Some 1)))) = Some 1 \<and>
   test_status_code (list_of_tests example_running ! 1) = ''RUN'' \<and>
   fst (jsonrpc_handler example_config 1000000010 75 (example_request ''stopTest'' 50 ''TESTKEY'' (Some ''DEV-1'') (Some 1)) example_running)
     = Result (Inr 50) (JDict [(''status'', JStr ''OK'')]) \<and>
   test_status_code (list_of_tests (snd (jsonrpc_handler example_config 1000000010 75
       (example_request ''stopTest'' 50 ''TESTKEY'' (Some ''DEV-1'') (Some 1)) example_running)) ! 1) = ''PAUSE'' \<and>
   fst (jsonrpc_handler example_config 1000000060 75 (example_request ''stopTest'' 50 ''TESTKEY'' (Some ''DEV-1'') (Some 1)) example_running)
     = Error (Inr 50) [(''code'', JInt (- 1)), (''status'', JStr ''TEST NOT STOPPABLE'')] \<and>
   test_status_code (list_of_tests (snd (jsonrpc_handler example_config 1000000060 75
       (example_request ''stopTest'' 50 ''TESTKEY'' (Some ''DEV-1'') (Some 1)) example_running)) ! 1) = ''END'' \<and>
   stop_mode_id (list_of_tests (snd (jsonrpc_handler example_config 1000000060 75
       (example_request ''stopTest'' 50 ''TESTKEY'' (Some ''DEV-1'') (Some 1)) example_running)) ! 1) = Some 2"
  using stopTest_pause_or_end [of "example_request ''stopTest'' 50 ''TESTKEY'' (Some ''DEV-1'') (Some 1)"
      example_config example_running 1 1000000010 75]
    stopTest_pause_or_end [of "example_request ''stopTest'' 50 ''TESTKEY'' (Some ''DEV-1'') (Some 1)"
      example_config example_running 1 1000000060 75]
  by (simp add: example_request_def example_config_def example_running_def example_test_def)

section \<open>Clone\<close>

text \<open>
  Claim C9. A \<^verbatim>\<open>cloneAndStartTest\<close> call with a valid key whose \<^verbatim>\<open>test_number\<close>
  matches no stored test returns an error with code \<open>-1\<close> and appends nothing, whatever
  the status of the last test is: with a matching \<^verbatim>\<open>device_id\<close> it is the
  test-not-found error of the source lookup, which therefore comes before the
  last-test-running guard (in the example that follows the last test is running, and the
  answer is still the not-found error).
\<close>

theorem clone_source_must_exist:
  assumes "req_method req = ''cloneAndStartTest''"
    and "param_api_key (req_params req) = Some (API_KEY cfg)"
    and "find_test (list_of_tests s) (param_test_number (req_params req)) = None"
  shows "jsonrpc_handler cfg now maxNewton req s =
    (Error (req_id req)
       [(''code'', JInt (- 1)),
        (''message'', JStr
           (if param_device_id (req_params req) \<noteq> deviceId cfg
            then ''Device ID '' @ str_opt (\<lambda>d. d) (param_device_id (req_params req)) @ '' not found''
            else ''Test number '' @ str_opt str_int (param_test_number (req_params req)) @ '' not found''))], s)"
  using assms
  by (simp add: handler_authorised cloneAndStartTest_def jsonrpc_response_def
      device_not_found_def test_not_found_def)

theorem clone_source_must_exist_witness:
  "req_method (example_request ''cloneAndStartTest'' 30 ''TESTKEY'' (Some ''DEV-1'') (Some 7)) = ''cloneAndStartTest'' \<and>
   param_api_key (req_params (example_request ''cloneAndStartTest'' 30 ''TESTKEY'' (Some ''DEV-1'') (Some 7))) = Some (API_KEY example_config) \<and>
   find_test (list_of_tests example_running) (param_test_number (req_params (example_request ''cloneAndStartTest'' 30 ''TESTKEY'' (Some ''DEV-1'') (Some 7)))) = None \<and>
   test_status_code (last (list_of_tests example_running)) = ''RUN'' \<and>
   jsonrpc_handler example_config 2000000000 75 (example_request ''cloneAndStartTest'' 30 ''TESTKEY'' (Some ''DEV-1'') (Some 7)) example_running =
     (Error (Inr 30) [(''code'', JInt (- 1)), (''message'', JStr ''Test number 7 not found'')], example_running)"
  using clone_source_must_exist [of "example_request ''cloneAndStartTest'' 30 ''TESTKEY'' (Some ''DEV-1'') (Some 7)"
      example_config example_running 2000000000 75]
  by (simp add: example_request_def example_config_def example_running_def example_test_def
      str_opt_def str_int_7)

text \<open>
  Claim C1 (as amended). For a \<^verbatim>\<open>cloneAndStartTest\<close> call that passes the guards and
  whose source \<^verbatim>\<open>test_number\<close> exists in the registry: the call fails when the status
  of the most recently appended test is \<^verbatim>\<open>RUN\<close>, and otherwise succeeds, appending
  exactly one new test whose \<^verbatim>\<open>test_number\<close> is the registry size before the call,
  which is also the returned \<^verbatim>\<open>new_test_number\<close>.
\<close>

theorem clone_guard_last_running:
  assumes "req_method req = ''cloneAndStartTest''"
    and "param_api_key (req_params req) = Some (API_KEY cfg)"
    and "param_device_id (req_params req) = deviceId cfg"
    and "find_test (list_of_tests s) (param_test_number (req_params req)) = Some i"
  shows "if test_status_code (last (list_of_tests s)) = ''RUN''
    then jsonrpc_handler cfg now maxNewton req s =
      (Error (req_id req) [(''code'', JInt (- 1)), (''message'', JStr ''Cannot clone a running test'')], s)
    else fst (jsonrpc_handler cfg now maxNewton req s) =
        Result (req_id req)
          (JDict [(''status'', JStr ''OK''), (''new_test_number'', JInt (int (length (list_of_tests s))))])
      \<and> (\<exists>t. list_of_tests (snd (jsonrpc_handler cfg now maxNewton req s)) = list_of_tests s @ [t]
            \<and> test_number t = int (length (list_of_tests s)))"
proof -
  from assms(4) have "list_of_tests s \<noteq> []" by (auto dest: find_test_Some)
  then have "py_getitem (list_of_tests s) (int (length (list_of_tests s)) - 1)
      = Some (last (list_of_tests s))"
    by (rule py_getitem_last)
  with assms show ?thesis
    by (simp add: handler_authorised cloneAndStartTest_def jsonrpc_response_def dump_config_def Let_def)
qed

theorem clone_guard_last_running_witness:
  "req_method (example_request ''cloneAndStartTest'' 30 ''TESTKEY'' (Some ''DEV-1'') (Some 0)) = ''cloneAndStartTest'' \<and>
   param_api_key (req_params (example_request ''cloneAndStartTest'' 30 ''TESTKEY'' (Some ''DEV-1'') (Some 0)))
     = Some (API_KEY example_config) \<and>
   param_device_id (req_params (example_request ''cloneAndStartTest'' 30 ''TESTKEY'' (Some ''DEV-1'') (Some 0)))
     = deviceId example_config \<and>
   find_test (list_of_tests example_server)
     (param_test_number (req_params (example_request ''cloneAndStartTest'' 30 ''TESTKEY'' (Some ''DEV-1'') (Some 0)))) = Some 0 \<and>
   test_status_code (last (list_of_tests example_server)) \<noteq> ''RUN'' \<and>
   fst (jsonrpc_handler example_config 2000000000 75
       (example_request ''cloneAndStartTest'' 30 ''TESTKEY'' (Some ''DEV-1'') (Some 0)) example_server)
     = Result (Inr 30) (JDict [(''status'', JStr ''OK''), (''new_test_number'', JInt 2)]) \<and>
   (\<exists>t. list_of_tests (snd (jsonrpc_handler example_config 2000000000 75
       (example_request ''cloneAndStartTest'' 30 ''TESTKEY'' (Some ''DEV-1'') (Some 0)) example_server))
       = list_of_tests example_server @ [t] \<and> test_number t = 2)"
  using clone_guard_last_running [of "example_request ''cloneAndStartTest'' 30 ''TESTKEY'' (Some ''DEV-1'') (Some 0)"
      example_config example_server 0 2000000000 75]
  by (simp add: example_request_def example_config_def example_server_def example_tests_def
      example_test_def)

text \<open>
  The claim as stated (without the condition on the source test) fails: with the last test
  in \<^verbatim>\<open>PAUSE\<close>, cloning the unknown test 7 is rejected.
\<close>

theorem clone_guard_counterexample:
  "test_status_code (last (list_of_tests example_server)) \<noteq> ''RUN'' \<and>
   jsonrpc_handler example_config 2000000000 75
       (example_request ''cloneAndStartTest'' 30 ''TESTKEY'' (Some ''DEV-1'') (Some 7)) example_server
     = (Error (Inr 30) [(''code'', JInt (- 1)), (''message'', JStr ''Test number 7 not found'')],
        example_server)"
  by (simp add: jsonrpc_handler_def cloneAndStartTest_def jsonrpc_response_def test_not_found_def
      str_opt_def str_int_7 example_request_def example_config_def example_server_def
      example_tests_def example_test_def)

section \<open>Persistence\<close>

lemma branch_sync:
  assumes "config_json s = list_of_tests s"
  shows "config_json (snd (getTestInfoAndStatus cfg now req s)) = list_of_tests (snd (getTestInfoAndStatus cfg now req s))"
    and "config_json (snd (getTestAcquiredDataAndResults cfg now req s)) = list_of_tests (snd (getTestAcquiredDataAndResults cfg now req s))"
    and "config_json (snd (cloneAndStartTest cfg now maxNewton req s)) = list_of_tests (snd (cloneAndStartTest cfg now maxNewton req s))"
    and "config_json (snd (continueTest cfg now req s)) = list_of_tests (snd (continueTest cfg now req s))"
  using assms
  by (simp_all add: getTestInfoAndStatus_def getTestAcquiredDataAndResults_def cloneAndStartTest_def
      continueTest_def dump_config_def Let_def split: option.split)

lemma stopTest_sync:
  assumes "config_json s = list_of_tests s"
  shows "config_json (snd (stopTest cfg now req s)) \<noteq> list_of_tests (snd (stopTest cfg now req s))
     \<longleftrightarrow> param_device_id (req_params req) = deviceId cfg \<and>
     (case find_test (list_of_tests s) (param_test_number (req_params req)) of
        None \<Rightarrow> False
      | Some i \<Rightarrow> test_status_code (list_of_tests s ! i) = ''RUN'' \<and>
          now - sample_reception_epoch_time (list_of_tests s ! i) \<ge> test_duration_seconds cfg)"
proof (cases "find_test (list_of_tests s) (param_test_number (req_params req))")
  case None
  then show ?thesis using assms by (simp add: stopTest_def)
next
  case (Some i)
  then have i: "i < length (list_of_tests s)" by (simp add: find_test_Some)
  have neq: "list_of_tests s \<noteq> (list_of_tests s)[i := t]"
    if "test_status_code t \<noteq> test_status_code (list_of_tests s ! i)" for t
  proof
    assume "list_of_tests s = (list_of_tests s)[i := t]"
    then have "(list_of_tests s)[i := t] ! i = list_of_tests s ! i" by simp
    with i that show False by simp
  qed
  show ?thesis using Some assms neq
    by (simp add: stopTest_def dump_config_def Let_def duration_elapsed_def)
qed

lemma handler_sync:
  assumes "config_json s = list_of_tests s"
  shows "config_json (snd (jsonrpc_handler cfg now maxNewton req s))
           \<noteq> list_of_tests (snd (jsonrpc_handler cfg now maxNewton req s))
         \<longleftrightarrow> stop_elapsed_path cfg now req s"
proof (cases "req_method req = ''stopTest'' \<and> param_api_key (req_params req) = Some (API_KEY cfg)")
  case True
  then show ?thesis using stopTest_sync [OF assms]
    by (simp add: handler_authorised stop_elapsed_path_def)
next
  case False
  then have "config_json (snd (jsonrpc_handler cfg now maxNewton req s))
           = list_of_tests (snd (jsonrpc_handler cfg now maxNewton req s))"
    using assms branch_sync [OF assms]
    by (auto simp add: jsonrpc_handler_def Let_def split: option.split)
  with False show ?thesis by (auto simp add: stop_elapsed_path_def)
qed

text \<open>
  Claim C10. Starting from a state where the file agrees with the in-memory registry, a
  call leaves the two different exactly when it takes the duration-exceeded branch of
  \<^verbatim>\<open>stopTest\<close>; on that branch the test's status becomes \<^verbatim>\<open>END\<close> and its
  \<^verbatim>\<open>stop_mode_id\<close> \<open>2\<close> in memory only, the file is not written, and the response
  is the error.
\<close>

theorem stopTest_elapsed_not_dumped:
  assumes "config_json s = list_of_tests s"
  shows "(config_json (snd (jsonrpc_handler cfg now maxNewton req s))
            \<noteq> list_of_tests (snd (jsonrpc_handler cfg now maxNewton req s)))
          = stop_elapsed_path cfg now req s
       \<and> (stop_elapsed_path cfg now req s \<longrightarrow>
            find_test (list_of_tests s) (param_test_number (req_params req)) = Some i \<longrightarrow>
            jsonrpc_handler cfg now maxNewton req s =
              (Error (req_id req) [(''code'', JInt (- 1)), (''status'', JStr ''TEST NOT STOPPABLE'')],
               s\<lparr>list_of_tests := (list_of_tests s)
                  [i := (list_of_tests s ! i)\<lparr>test_status_code := ''END'', stop_mode_id := Some 2\<rparr>]\<rparr>))"
proof
  show "(config_json (snd (jsonrpc_handler cfg now maxNewton req s))
            \<noteq> list_of_tests (snd (jsonrpc_handler cfg now maxNewton req s)))
          = stop_elapsed_path cfg now req s"
    using handler_sync [OF assms] by simp
next
  show "stop_elapsed_path cfg now req s \<longrightarrow>
            find_test (list_of_tests s) (param_test_number (req_params req)) = Some i \<longrightarrow>
            jsonrpc_handler cfg now maxNewton req s =
              (Error (req_id req) [(''code'', JInt (- 1)), (''status'', JStr ''TEST NOT STOPPABLE'')],
               s\<lparr>list_of_tests := (list_of_tests s)
                  [i := (list_of_tests s ! i)\<lparr>test_status_code := ''END'', stop_mode_id := Some 2\<rparr>]\<rparr>)"
  proof (intro impI)
    assume path: "stop_elapsed_path cfg now req s"
      and i: "find_test (list_of_tests s) (param_test_number (req_params req)) = Some i"
    from path i have "req_method req = ''stopTest''"
      and "param_api_key (req_params req) = Some (API_KEY cfg)"
      and "param_device_id (req_params req) = deviceId cfg"
      and "test_status_code (list_of_tests s ! i) = ''RUN''"
      and "duration_elapsed cfg now (list_of_tests s ! i)"
      by (simp_all add: stop_elapsed_path_def duration_elapsed_def)
    with i show "jsonrpc_handler cfg now maxNewton req s =
              (Error (req_id req) [(''code'', JInt (- 1)), (''status'', JStr ''TEST NOT STOPPABLE'')],
               s\<lparr>list_of_tests := (list_of_tests s)
                  [i := (list_of_tests s ! i)\<lparr>test_status_code := ''END'', stop_mode_id := Some 2\<rparr>]\<rparr>)"
      by (simp add: handler_authorised stopTest_def jsonrpc_response_def Let_def)
  qed
qed

theorem stopTest_elapsed_not_dumped_witness:
  "config_json example_running = list_of_tests example_running \<and>
   stop_elapsed_path example_config 1000010000
     (example_request ''stopTest'' 51 ''TESTKEY'' (Some ''DEV-1'') (Some 1)) example_running \<and>
   find_test (list_of_tests example_running)
     (param_test_number (req_params (example_request ''stopTest'' 51 ''TESTKEY'' (Some ''DEV-1'') (Some 1)))) = Some 1 \<and>
   config_json (snd (jsonrpc_handler example_config 1000010000 75
       (example_request ''stopTest'' 51 ''TESTKEY'' (Some ''DEV-1'') (Some 1)) example_running))
     \<noteq> list_of_tests (snd (jsonrpc_handler example_config 1000010000 75
       (example_request ''stopTest'' 51 ''TESTKEY'' (Some ''DEV-1'') (Some 1)) example_running)) \<and>
   test_status_code (list_of_tests (snd (jsonrpc_handler example_config 1000010000 75
       (example_request ''stopTest'' 51 ''TESTKEY'' (Some ''DEV-1'') (Some 1)) example_running)) ! 1) = ''END'' \<and>
   test_status_code (config_json (snd (jsonrpc_handler example_config 1000010000 75
       (example_request ''stopTest'' 51 ''TESTKEY'' (Some ''DEV-1'') (Some 1)) example_running)) ! 1) = ''RUN''"
  using stopTest_elapsed_not_dumped [of example_running example_config 1000010000 75
      "example_request ''stopTest'' 51 ''TESTKEY'' (Some ''DEV-1'') (Some 1)" 1]
  by (simp add: stop_elapsed_path_def example_request_def example_config_def example_running_def
      example_test_def)

section \<open>Terminality of END\<close>

lemma status_nth_update:
  "i < length ts \<Longrightarrow>
   test_status_code (ts[j := t] ! i) = (if j = i then test_status_code t else test_status_code (ts ! i))"
  by simp

lemma branch_keeps_END:
  assumes "i < length (list_of_tests s)" and "test_status_code (list_of_tests s ! i) = ''END''"
  shows "i < length (list_of_tests (snd (getTestInfoAndStatus cfg now req s))) \<and>
         test_status_code (list_of_tests (snd (getTestInfoAndStatus cfg now req s)) ! i) = ''END''"
    and "i < length (list_of_tests (snd (getTestAcquiredDataAndResults cfg now req s))) \<and>
         test_status_code (list_of_tests (snd (getTestAcquiredDataAndResults cfg now req s)) ! i) = ''END''"
    and "i < length (list_of_tests (snd (cloneAndStartTest cfg now maxNewton req s))) \<and>
         test_status_code (list_of_tests (snd (cloneAndStartTest cfg now maxNewton req s)) ! i) = ''END''"
    and "i < length (list_of_tests (snd (continueTest cfg now req s))) \<and>
         test_status_code (list_of_tests (snd (continueTest cfg now req s)) ! i) = ''END''"
    and "i < length (list_of_tests (snd (stopTest cfg now req s))) \<and>
         test_status_code (list_of_tests (snd (stopTest cfg now req s)) ! i) = ''END''"
  using assms
  by (auto simp add: getTestInfoAndStatus_def getTestAcquiredDataAndResults_def cloneAndStartTest_def
      continueTest_def stopTest_def dump_config_def Let_def nth_append status_nth_update
      split: option.split)

lemma handler_keeps_END:
  assumes "i < length (list_of_tests s)" and "test_status_code (list_of_tests s ! i) = ''END''"
  shows "i < length (list_of_tests (snd (jsonrpc_handler cfg now maxNewton req s))) \<and>
         test_status_code (list_of_tests (snd (jsonrpc_handler cfg now maxNewton req s)) ! i) = ''END''"
  using assms branch_keeps_END [OF assms]
  by (simp add: jsonrpc_handler_def Let_def split: option.split)

text \<open>
  Claim C2. \<^verbatim>\<open>END\<close> is terminal: a stored test (identified by its position in the
  registry, which no operation changes) whose status is \<^verbatim>\<open>END\<close> still has status
  \<^verbatim>\<open>END\<close> after any sequence of calls of the handler, whatever their methods,
  parameters, clock readings and random draws are; in particular no \<^verbatim>\<open>continueTest\<close>,
  \<^verbatim>\<open>stopTest\<close>, \<^verbatim>\<open>cloneAndStartTest\<close> or read query moves it to \<^verbatim>\<open>RUN\<close> or
  \<^verbatim>\<open>PAUSE\<close>.
\<close>

theorem END_is_terminal:
  assumes "i < length (list_of_tests s)" and "test_status_code (list_of_tests s ! i) = ''END''"
  shows "i < length (list_of_tests (run_calls cfg calls s)) \<and>
         test_status_code (list_of_tests (run_calls cfg calls s) ! i) = ''END''"
  using assms
proof (induction calls arbitrary: s)
  case Nil
  then show ?case by simp
next
  case (Cons c calls)
  obtain now maxNewton req where c: "c = (now, maxNewton, req)"
    by (cases c) auto
  from Cons.prems have "i < length (list_of_tests (snd (jsonrpc_handler cfg now maxNewton req s))) \<and>
      test_status_code (list_of_tests (snd (jsonrpc_handler cfg now maxNewton req s)) ! i) = ''END''"
    by (rule handler_keeps_END)
  then show ?case using Cons.IH c by simp
qed


theorem END_is_terminal_witness:
  "0 < length (list_of_tests example_server) \<and>
   test_status_code (list_of_tests example_server ! 0) = ''END'' \<and>
   0 < length (list_of_tests (run_calls example_config
     [(3000000000, 75, example_request ''continueTest'' 40 ''TESTKEY'' (Some ''DEV-1'') (Some 0)),
      (3000000001, 75, example_request ''stopTest'' 50 ''TESTKEY'' (Some ''DEV-1'') (Some 0)),
      (3000000002, 75, example_request ''getTestInfoAndStatus'' 20 ''TESTKEY'' (Some ''DEV-1'') (Some 0)),
      (3000000003, 75, example_request ''cloneAndStartTest'' 30 ''TESTKEY'' (Some ''DEV-1'') (Some 0))]
     example_server)) \<and>
   test_status_code (list_of_tests (run_calls example_config
     [(3000000000, 75, example_request ''continueTest'' 40 ''TESTKEY'' (Some ''DEV-1'') (Some 0)),
      (3000000001, 75, example_request ''stopTest'' 50 ''TESTKEY'' (Some ''DEV-1'') (Some 0)),
      (3000000002, 75, example_request ''getTestInfoAndStatus'' 20 ''TESTKEY'' (Some ''DEV-1'') (Some 0)),
      (3000000003, 75, example_request ''cloneAndStartTest'' 30 ''TESTKEY'' (Some ''DEV-1'') (Some 0))]
     example_server) ! 0) = ''END''"
proof -
  have h1: "0 < length (list_of_tests example_server)"
    by (simp add: example_server_def example_tests_def)
  have h2: "test_status_code (list_of_tests example_server ! 0) = ''END''"
    by (simp add: example_server_def example_tests_def example_test_def)
  from h1 h2 END_is_terminal [OF h1 h2] show ?thesis by blast
qed

section \<open>Floats\<close>

text \<open>
  The exponent found by \<open>float_exponent\<close> is the binade of its argument, and
  \<open>round_half_even\<close> picks an integer at distance at most one half.
\<close>

lemma float_exponent_bounds:
  "x \<noteq> 0 \<Longrightarrow> 2 powi float_exponent x \<le> \<bar>x\<bar> \<and> \<bar>x\<bar> < 2 powi (float_exponent x + 1)"
proof (induction x rule: float_exponent.induct)
  case (1 x)
  show ?case
  proof (cases "2 \<le> \<bar>x\<bar>")
    case True
    then have e: "float_exponent x = float_exponent (x / 2) + 1"
      by (subst float_exponent.simps) simp
    from True have "x / 2 \<noteq> 0" by auto
    with 1(1) True have "2 powi float_exponent (x / 2) \<le> \<bar>x / 2\<bar>"
      and "\<bar>x / 2\<bar> < 2 powi (float_exponent (x / 2) + 1)"
      by simp_all
    then show ?thesis
      unfolding e by (simp_all add: power_int_add)
  next
    case big: False
    show ?thesis
    proof (cases "\<bar>x\<bar> < 1")
      case True
      with big 1(3) have e: "float_exponent x = float_exponent (x * 2) - 1"
        by (subst float_exponent.simps) simp
      from 1(3) have "x * 2 \<noteq> 0" by simp
      with 1(2) big True 1(3) have "2 powi float_exponent (x * 2) \<le> \<bar>x * 2\<bar>"
        and "\<bar>x * 2\<bar> < 2 powi (float_exponent (x * 2) + 1)"
        by simp_all
      then show ?thesis
        unfolding e by (simp_all add: power_int_add power_int_diff abs_mult)
    next
      case False
      with big have e: "float_exponent x = 0"
        by (subst float_exponent.simps) simp
      from False big show ?thesis
        unfolding e by simp
    qed
  qed
qed

lemma round_half_even_nearest: "\<bar>of_int (round_half_even r) - r\<bar> \<le> 1 / 2"
proof -
  have "of_int \<lfloor>r\<rfloor> \<le> r" and "r < of_int \<lfloor>r\<rfloor> + 1"
    by linarith+
  then show ?thesis
    by (auto simp add: round_half_even_def Let_def)
qed

section \<open>The synthetic waveform\<close>

text \<open>
  \<^verbatim>\<open>range(0, 100_00, 5)\<close> yields the 2000 integers \<open>5 * k\<close>, so the loop samples
  \<open>delta_t\<close> as the float nearest to \<open>5 * k / 100 = 0.05 * k\<close>.
\<close>

lemma py_range_multiple:
  "0 < step \<Longrightarrow>
   py_range (stop - step * int n) stop step = map (\<lambda>k. stop - step * int n + step * int k) [0..<n]"
proof (induction n)
  case 0
  then show ?case by (simp add: py_range.simps)
next
  case (Suc n)
  have shift: "stop - step * int (Suc n) + step = stop - step * int n"
    by (simp add: algebra_simps)
  have upt: "[0..<Suc n] = 0 # map Suc [0..<n]"
    by (simp only: map_Suc_upt upt_conv_Cons [OF zero_less_Suc])
  have unfold: "py_range i stop step = i # py_range (i + step) stop step" if "i < stop" for i
    using Suc.prems that by (subst py_range.simps) simp
  from Suc.prems have "stop - step * int (Suc n) < stop" by simp
  then have "py_range (stop - step * int (Suc n)) stop step
      = (stop - step * int (Suc n)) # py_range (stop - step * int n) stop step"
    using unfold [of "stop - step * int (Suc n)"] by (simp only: shift)
  also have "py_range (stop - step * int n) stop step
      = map (\<lambda>k. stop - step * int n + step * int k) [0..<n]"
    using Suc by simp
  finally show ?case
    by (simp only: upt list.map map_map o_def) (simp add: algebra_simps)
qed

lemma py_range_from_0:
  "0 < step \<Longrightarrow> stop = step * int n \<Longrightarrow> py_range 0 stop step = map (\<lambda>k. step * int k) [0..<n]"
  using py_range_multiple [of step stop n] by simp

lemma py_range_0_10000_5: "py_range 0 10000 5 = map (\<lambda>k. 5 * int k) [0..<2000]"
  by (rule py_range_from_0) simp_all

lemma data_point_of_index:
  "(let x = round_double (real_of_int (5 * int k) / 100);
        y = (if x < maxNewton then x else round_double (- x + round_double (maxNewton * 2)))
    in \<lparr>delta_t = x, value_pt = y\<rparr>) =
   (let d = round_double (0.05 * real k)
    in \<lparr>delta_t = d,
        value_pt = (if d < maxNewton then d else round_double (- d + round_double (maxNewton * 2)))\<rparr>)"
proof -
  have "real_of_int (5 * int k) / 100 = 0.05 * real k" by simp
  then show ?thesis by (simp only: Let_def)
qed

lemma results_data_eq:
  "results_data maxNewton =
     map (\<lambda>k. let d = round_double (0.05 * real k)
              in \<lparr>delta_t = d,
                  value_pt = (if d < maxNewton then d
                              else round_double (- d + round_double (maxNewton * 2)))\<rparr>) [0..<2000]"
  unfolding results_data_def py_range_0_10000_5 map_map o_def data_point_of_index ..

text \<open>
  Two values of the model against the floats Python computes: \<^verbatim>\<open>5/100\<close> is the float
  \<^verbatim>\<open>0.05\<close>, that is \<open>3602879701896397 / 2^56\<close>; with peak \<^verbatim>\<open>75.0\<close> the sample of
  index 1722 is \<^verbatim>\<open>(86.1, 63.900000000000006)\<close>, that is
  \<open>(3029374436848435 / 2^45, 2248281376476365 / 2^45)\<close>, and not the real numbers
  \<open>861/10\<close> and \<open>639/10\<close>.
\<close>

lemma round_double_5_100: "round_double (5 / 100) = 3602879701896397 / 2 ^ 56"
  by code_simp

lemma round_double_8610_100: "round_double (8610 / 100) = 3029374436848435 / 2 ^ 45"
  by code_simp

lemma round_double_value_1722:
  "round_double (- (3029374436848435 / 2 ^ 45) + round_double (75 * 2)) = 2248281376476365 / 2 ^ 45"
  by code_simp

lemma results_data_75_sample_1722:
  "results_data 75 ! 1722 =
     \<lparr>delta_t = 3029374436848435 / 2 ^ 45, value_pt = 2248281376476365 / 2 ^ 45\<rparr>"
proof -
  have d: "round_double (0.05 * real (1722::nat)) = 3029374436848435 / 2 ^ 45"
  proof -
    have "0.05 * real (1722::nat) = 8610 / 100" by simp
    then show ?thesis by (simp only: round_double_8610_100)
  qed
  have ge: "\<not> (3029374436848435 / 2 ^ 45 < (75::real))" by simp
  have "results_data 75 ! 1722 =
      (let d = round_double (0.05 * real (1722::nat))
       in \<lparr>delta_t = d,
           value_pt = (if d < 75 then d else round_double (- d + round_double (75 * 2)))\<rparr>)"
    unfolding results_data_eq by (subst nth_map) simp_all
  also have "\<dots> = \<lparr>delta_t = 3029374436848435 / 2 ^ 45, value_pt = 2248281376476365 / 2 ^ 45\<rparr>"
    unfolding Let_def d if_not_P [OF ge] round_double_value_1722 ..
  finally show ?thesis .
qed

lemma clone_Result:
  assumes "fst (cloneAndStartTest cfg now maxNewton req s) = Result rid res"
  shows "list_of_tests (snd (cloneAndStartTest cfg now maxNewton req s)) =
      list_of_tests s @
        [\<lparr>test_number = int (length (list_of_tests s)),
          status = ''OK'',
          test_description = (case param_test_description (req_params req) of None \<Rightarrow> ''Cloned Test'' | Some d \<Rightarrow> d),
          specimen_code = (case param_specimen_code (req_params req) of None \<Rightarrow> ''001'' | Some c \<Rightarrow> c),
          specimen_description = (case param_specimen_description (req_params req) of None \<Rightarrow> ''Cloned Specimen'' | Some d \<Rightarrow> d),
          sample_reception_epoch_time = now,
          customer_id = (case param_customer_id (req_params req) of None \<Rightarrow> 1 | Some c \<Rightarrow> c),
          test_status_code = ''RUN'',
          stop_mode_id = None,
          list_of_channel_acquired_data =
            [\<lparr>stage_name = ''COMPRESSION_STAGE'', sub_stage_index = 1, channel_type = ''Analog'',
              channel_index = 1, list_of_data_points = results_data maxNewton\<rparr>]\<rparr>]"
proof (cases "param_device_id (req_params req) \<noteq> deviceId cfg")
  case True
  with assms show ?thesis
    by (simp add: cloneAndStartTest_def jsonrpc_response_def device_not_found_def)
next
  case dev: False
  show ?thesis
  proof (cases "find_test (list_of_tests s) (param_test_number (req_params req))")
    case None
    with assms dev show ?thesis
      by (simp add: cloneAndStartTest_def jsonrpc_response_def test_not_found_def)
  next
    case (Some i)
    show ?thesis
    proof (cases "py_getitem (list_of_tests s) (int (length (list_of_tests s)) - 1)")
      case None
      with assms dev Some show ?thesis
        by (simp add: cloneAndStartTest_def jsonrpc_response_def)
    next
      case l: (Some l)
      with assms dev Some have "test_status_code l \<noteq> ''RUN''"
        by (auto simp add: cloneAndStartTest_def jsonrpc_response_def)
      with dev Some l show ?thesis
        by (simp add: cloneAndStartTest_def dump_config_def Let_def)
    qed
  qed
qed

lemma handler_Result_authorised:
  assumes "req_method req = ''cloneAndStartTest''"
    and "fst (jsonrpc_handler cfg now maxNewton req s) = Result rid res"
  shows "param_api_key (req_params req) = Some (API_KEY cfg)"
proof (rule ccontr)
  assume "param_api_key (req_params req) \<noteq> Some (API_KEY cfg)"
  with assms(1) have "fst (jsonrpc_handler cfg now maxNewton req s) =
      Error (req_id req) [(''code'', JInt (- 401)), (''message'', JStr ''Invalid API key'')]"
    by (simp add: jsonrpc_handler_def jsonrpc_response_def)
  with assms(2) show False by simp
qed

text \<open>
  Claim C5. After a successful \<^verbatim>\<open>cloneAndStartTest\<close> (one that returns a result) with
  drawn peak \<open>maxNewton\<close>, the registry is the old one followed by one new test; that test
  has status \<^verbatim>\<open>RUN\<close>, \<^verbatim>\<open>sample_reception_epoch_time\<close> equal to the current time and
  exactly one channel record, whose samples are \<open>(delta_t, value)\<close> for the 2000 floats
  \<open>delta_t = 0, 0.05, 0.10, ...\<close> below 100 (the float nearest to \<open>0.05 * k\<close>, which is
  what the literal denotes), with \<open>value = delta_t\<close> when \<open>delta_t < maxNewton\<close> and
  \<open>value = - delta_t + 2 * maxNewton\<close> otherwise, evaluated in float arithmetic as the
  program does. This holds for every peak, in particular for one in \<open>[50, 100)\<close>.
\<close>

theorem clone_waveform:
  assumes "req_method req = ''cloneAndStartTest''"
    and "fst (jsonrpc_handler cfg now maxNewton req s) = Result rid res"
  shows "\<exists>t c. list_of_tests (snd (jsonrpc_handler cfg now maxNewton req s)) = list_of_tests s @ [t] \<and>
      test_status_code t = ''RUN'' \<and>
      sample_reception_epoch_time t = now \<and>
      list_of_channel_acquired_data t = [c] \<and>
      list_of_data_points c =
        map (\<lambda>k. let d = round_double (0.05 * real k)
                 in \<lparr>delta_t = d,
                     value_pt = (if d < maxNewton then d
                                 else round_double (- d + round_double (maxNewton * 2)))\<rparr>) [0..<2000]"
proof -
  have key: "param_api_key (req_params req) = Some (API_KEY cfg)"
    using assms by (rule handler_Result_authorised)
  with assms(1) have eq: "jsonrpc_handler cfg now maxNewton req s = cloneAndStartTest cfg now maxNewton req s"
    by (simp add: handler_authorised)
  with assms(2) have "fst (cloneAndStartTest cfg now maxNewton req s) = Result rid res"
    by simp
  then have "list_of_tests (snd (jsonrpc_handler cfg now maxNewton req s)) =
      list_of_tests s @
        [\<lparr>test_number = int (length (list_of_tests s)),
          status = ''OK'',
          test_description = (case param_test_description (req_params req) of None \<Rightarrow> ''Cloned Test'' | Some d \<Rightarrow> d),
          specimen_code = (case param_specimen_code (req_params req) of None \<Rightarrow> ''001'' | Some c \<Rightarrow> c),
          specimen_description = (case param_specimen_description (req_params req) of None \<Rightarrow> ''Cloned Specimen'' | Some d \<Rightarrow> d),
          sample_reception_epoch_time = now,
          customer_id = (case param_customer_id (req_params req) of None \<Rightarrow> 1 | Some c \<Rightarrow> c),
          test_status_code = ''RUN'',
          stop_mode_id = None,
          list_of_channel_acquired_data =
            [\<lparr>stage_name = ''COMPRESSION_STAGE'', sub_stage_index = 1, channel_type = ''Analog'',
              channel_index = 1, list_of_data_points = results_data maxNewton\<rparr>]\<rparr>]"
    unfolding eq by (rule clone_Result)
  then show ?thesis
    by (simp add: results_data_eq)
qed


theorem clone_waveform_witness:
  "req_method (example_request ''cloneAndStartTest'' 30 ''TESTKEY'' (Some ''DEV-1'') (Some 0)) = ''cloneAndStartTest'' \<and>
   fst (jsonrpc_handler example_config 2000000000 75
       (example_request ''cloneAndStartTest'' 30 ''TESTKEY'' (Some ''DEV-1'') (Some 0)) example_server)
     = Result (Inr 30) (JDict [(''status'', JStr ''OK''), (''new_test_number'', JInt 2)]) \<and>
   (\<exists>t c. list_of_tests (snd (jsonrpc_handler example_config 2000000000 75
       (example_request ''cloneAndStartTest'' 30 ''TESTKEY'' (Some ''DEV-1'') (Some 0)) example_server))
       = list_of_tests example_server @ [t] \<and>
      test_status_code t = ''RUN'' \<and>
      sample_reception_epoch_time t = 2000000000 \<and>
      list_of_channel_acquired_data t = [c] \<and>
      list_of_data_points c =
        map (\<lambda>k. let d = round_double (0.05 * real k)
                 in \<lparr>delta_t = d,
                     value_pt = (if d < 75 then d
                                 else round_double (- d + round_double (75 * 2)))\<rparr>) [0..<2000])"
proof (intro conjI)
  show h1: "req_method (example_request ''cloneAndStartTest'' 30 ''TESTKEY'' (Some ''DEV-1'') (Some 0))
      = ''cloneAndStartTest''"
    by (simp add: example_request_def)
  show h2: "fst (jsonrpc_handler example_config 2000000000 75
       (example_request ''cloneAndStartTest'' 30 ''TESTKEY'' (Some ''DEV-1'') (Some 0)) example_server)
     = Result (Inr 30) (JDict [(''status'', JStr ''OK''), (''new_test_number'', JInt 2)])"
    by (simp add: jsonrpc_handler_def cloneAndStartTest_def jsonrpc_response_def py_getitem_def
        Let_def example_request_def example_config_def example_server_def example_tests_def
        example_test_def)
  show "\<exists>t c. list_of_tests (snd (jsonrpc_handler example_config 2000000000 75
       (example_request ''cloneAndStartTest'' 30 ''TESTKEY'' (Some ''DEV-1'') (Some 0)) example_server))
       = list_of_tests example_server @ [t] \<and>
      test_status_code t = ''RUN'' \<and>
      sample_reception_epoch_time t = 2000000000 \<and>
      list_of_channel_acquired_data t = [c] \<and>
      list_of_data_points c =
        map (\<lambda>k. let d = round_double (0.05 * real k)
                 in \<lparr>delta_t = d,
                     value_pt = (if d < 75 then d
                                 else round_double (- d + round_double (75 * 2)))\<rparr>) [0..<2000]"
    by (rule clone_waveform [OF h1 h2])
qed

section \<open>Auto-completion on the read path\<close>

lemma find_test_update:
  "test_number t = test_number (ts ! j) \<Longrightarrow> find_test (ts[j := t]) n = find_test ts n"
proof (induction ts arbitrary: j)
  case Nil
  then show ?case by simp
next
  case (Cons a ts)
  then show ?case by (cases j) simp_all
qed

lemma info_response:
  assumes "req_method req = ''getTestInfoAndStatus''"
    and "param_api_key (req_params req) = Some (API_KEY cfg)"
    and "param_device_id (req_params req) = deviceId cfg"
    and "find_test (list_of_tests s) (param_test_number (req_params req)) = Some i"
    and "t = (if test_status_code (list_of_tests s ! i) = ''RUN'' \<and> duration_elapsed cfg now (list_of_tests s ! i)
              then (list_of_tests s ! i)\<lparr>test_status_code := ''END'', stop_mode_id := Some 2\<rparr>
              else list_of_tests s ! i)"
  shows "jsonrpc_handler cfg now maxNewton req s =
    (Result (req_id req) (JDict
       [(''status'', JStr ''OK''),
        (''test_description'', JStr (test_description t)),
        (''specimen_code'', JStr (specimen_code t)),
        (''specimen_description'', JStr (specimen_description t)),
        (''sample_reception_epoch_time'', JInt (sample_reception_epoch_time t)),
        (''customer_id'', JInt (customer_id t)),
        (''test_status_code'', JStr (test_status_code t))]),
     s\<lparr>list_of_tests := (list_of_tests s)[i := t], config_json := (list_of_tests s)[i := t]\<rparr>)"
  using assms(1-4) unfolding assms(5)
  by (simp add: handler_authorised getTestInfoAndStatus_def jsonrpc_response_def dump_config_def Let_def)

text \<open>
  Claim C4 (as amended). For a stored test whose status is \<^verbatim>\<open>RUN\<close> or \<^verbatim>\<open>END\<close>, two
  \<^verbatim>\<open>getTestInfoAndStatus\<close> calls in succession (same parameters, passing the guards), at
  any two times at or after \<^verbatim>\<open>sample_reception_epoch_time\<close> plus the configured duration,
  both report \<^verbatim>\<open>test_status_code\<close> \<^verbatim>\<open>END\<close>, and all other returned fields are the
  same in the two responses (they are the stored fields of the test).
\<close>

theorem status_query_after_duration:
  assumes "req_method req = ''getTestInfoAndStatus''"
    and "req_method req' = ''getTestInfoAndStatus''"
    and "req_params req' = req_params req"
    and "param_api_key (req_params req) = Some (API_KEY cfg)"
    and "param_device_id (req_params req) = deviceId cfg"
    and "find_test (list_of_tests s) (param_test_number (req_params req)) = Some i"
    and "test_status_code (list_of_tests s ! i) = ''RUN'' \<or> test_status_code (list_of_tests s ! i) = ''END''"
    and "sample_reception_epoch_time (list_of_tests s ! i) + test_duration_seconds cfg \<le> now"
    and "sample_reception_epoch_time (list_of_tests s ! i) + test_duration_seconds cfg \<le> now'"
  shows "fst (jsonrpc_handler cfg now maxNewton req s) =
      Result (req_id req) (JDict
       [(''status'', JStr ''OK''),
        (''test_description'', JStr (test_description (list_of_tests s ! i))),
        (''specimen_code'', JStr (specimen_code (list_of_tests s ! i))),
        (''specimen_description'', JStr (specimen_description (list_of_tests s ! i))),
        (''sample_reception_epoch_time'', JInt (sample_reception_epoch_time (list_of_tests s ! i))),
        (''customer_id'', JInt (customer_id (list_of_tests s ! i))),
        (''test_status_code'', JStr ''END'')])
    \<and> fst (jsonrpc_handler cfg now' maxNewton' req' (snd (jsonrpc_handler cfg now maxNewton req s))) =
      Result (req_id req') (JDict
       [(''status'', JStr ''OK''),
        (''test_description'', JStr (test_description (list_of_tests s ! i))),
        (''specimen_code'', JStr (specimen_code (list_of_tests s ! i))),
        (''specimen_description'', JStr (specimen_description (list_of_tests s ! i))),
        (''sample_reception_epoch_time'', JInt (sample_reception_epoch_time (list_of_tests s ! i))),
        (''customer_id'', JInt (customer_id (list_of_tests s ! i))),
        (''test_status_code'', JStr ''END'')])"
proof -
  define t where "t = (if test_status_code (list_of_tests s ! i) = ''RUN'' \<and> duration_elapsed cfg now (list_of_tests s ! i)
              then (list_of_tests s ! i)\<lparr>test_status_code := ''END'', stop_mode_id := Some 2\<rparr>
              else list_of_tests s ! i)"
  define s1 where "s1 = s\<lparr>list_of_tests := (list_of_tests s)[i := t], config_json := (list_of_tests s)[i := t]\<rparr>"
  have i: "i < length (list_of_tests s)"
    using assms(6) by (simp add: find_test_Some)
  have elapsed: "duration_elapsed cfg now (list_of_tests s ! i)"
    using assms(8) by (simp add: duration_elapsed_def)
  have t_END: "test_status_code t = ''END''"
    using assms(7) elapsed by (auto simp add: t_def)
  have t_fields: "test_number t = test_number (list_of_tests s ! i)"
      "test_description t = test_description (list_of_tests s ! i)"
      "specimen_code t = specimen_code (list_of_tests s ! i)"
      "specimen_description t = specimen_description (list_of_tests s ! i)"
      "sample_reception_epoch_time t = sample_reception_epoch_time (list_of_tests s ! i)"
      "customer_id t = customer_id (list_of_tests s ! i)"
    by (simp_all add: t_def)
  have first: "jsonrpc_handler cfg now maxNewton req s =
    (Result (req_id req) (JDict
       [(''status'', JStr ''OK''),
        (''test_description'', JStr (test_description t)),
        (''specimen_code'', JStr (specimen_code t)),
        (''specimen_description'', JStr (specimen_description t)),
        (''sample_reception_epoch_time'', JInt (sample_reception_epoch_time t)),
        (''customer_id'', JInt (customer_id t)),
        (''test_status_code'', JStr (test_status_code t))]), s1)"
    unfolding s1_def using assms(1,4,5,6) t_def by (rule info_response)
  have find1: "find_test (list_of_tests s1) (param_test_number (req_params req')) = Some i"
    using assms(3,6) t_fields(1) by (simp add: s1_def find_test_update)
  have nth1: "list_of_tests s1 ! i = t"
    using i by (simp add: s1_def)
  have t1: "t = (if test_status_code (list_of_tests s1 ! i) = ''RUN'' \<and> duration_elapsed cfg now' (list_of_tests s1 ! i)
              then (list_of_tests s1 ! i)\<lparr>test_status_code := ''END'', stop_mode_id := Some 2\<rparr>
              else list_of_tests s1 ! i)"
    using t_END by (simp add: nth1)
  have second: "jsonrpc_handler cfg now' maxNewton' req' s1 =
    (Result (req_id req') (JDict
       [(''status'', JStr ''OK''),
        (''test_description'', JStr (test_description t)),
        (''specimen_code'', JStr (specimen_code t)),
        (''specimen_description'', JStr (specimen_description t)),
        (''sample_reception_epoch_time'', JInt (sample_reception_epoch_time t)),
        (''customer_id'', JInt (customer_id t)),
        (''test_status_code'', JStr (test_status_code t))]),
     s1\<lparr>list_of_tests := (list_of_tests s1)[i := t], config_json := (list_of_tests s1)[i := t]\<rparr>)"
    using assms(2) _ _ find1 t1
  proof (rule info_response)
    show "param_api_key (req_params req') = Some (API_KEY cfg)" using assms(3,4) by simp
    show "param_device_id (req_params req') = deviceId cfg" using assms(3,5) by simp
  qed
  show ?thesis
    by (simp add: first second t_END t_fields)
qed


theorem status_query_after_duration_witness:
  "req_method (example_request ''getTestInfoAndStatus'' 20 ''TESTKEY'' (Some ''DEV-1'') (Some 1)) = ''getTestInfoAndStatus'' \<and>
   req_method (example_request ''getTestInfoAndStatus'' 21 ''TESTKEY'' (Some ''DEV-1'') (Some 1)) = ''getTestInfoAndStatus'' \<and>
   req_params (example_request ''getTestInfoAndStatus'' 21 ''TESTKEY'' (Some ''DEV-1'') (Some 1))
     = req_params (example_request ''getTestInfoAndStatus'' 20 ''TESTKEY'' (Some ''DEV-1'') (Some 1)) \<and>
   param_api_key (req_params (example_request ''getTestInfoAndStatus'' 20 ''TESTKEY'' (Some ''DEV-1'') (Some 1)))
     = Some (API_KEY example_config) \<and>
   param_device_id (req_params (example_request ''getTestInfoAndStatus'' 20 ''TESTKEY'' (Some ''DEV-1'') (Some 1)))
     = deviceId example_config \<and>
   find_test (list_of_tests example_running)
     (param_test_number (req_params (example_request ''getTestInfoAndStatus'' 20 ''TESTKEY'' (Some ''DEV-1'') (Some 1)))) = Some 1 \<and>
   test_status_code (list_of_tests example_running ! 1) = ''RUN'' \<and>
   sample_reception_epoch_time (list_of_tests example_running ! 1) + test_duration_seconds example_config \<le> 1000000060 \<and>
   sample_reception_epoch_time (list_of_tests example_running ! 1) + test_duration_seconds example_config \<le> 1000010000 \<and>
   fst (jsonrpc_handler example_config 1000000060 75
       (example_request ''getTestInfoAndStatus'' 20 ''TESTKEY'' (Some ''DEV-1'') (Some 1)) example_running) =
     Result (Inr 20) (JDict
       [(''status'', JStr ''OK''), (''test_description'', JStr ''T1''), (''specimen_code'', JStr ''002''),
        (''specimen_description'', JStr ''Spec1''), (''sample_reception_epoch_time'', JInt 1000000000),
        (''customer_id'', JInt 1), (''test_status_code'', JStr ''END'')]) \<and>
   fst (jsonrpc_handler example_config 1000010000 80
       (example_request ''getTestInfoAndStatus'' 21 ''TESTKEY'' (Some ''DEV-1'') (Some 1))
       (snd (jsonrpc_handler example_config 1000000060 75
          (example_request ''getTestInfoAndStatus'' 20 ''TESTKEY'' (Some ''DEV-1'') (Some 1)) example_running))) =
     Result (Inr 21) (JDict
       [(''status'', JStr ''OK''), (''test_description'', JStr ''T1''), (''specimen_code'', JStr ''002''),
        (''specimen_description'', JStr ''Spec1''), (''sample_reception_epoch_time'', JInt 1000000000),
        (''customer_id'', JInt 1), (''test_status_code'', JStr ''END'')])"
  using status_query_after_duration [where req = "example_request ''getTestInfoAndStatus'' 20 ''TESTKEY'' (Some ''DEV-1'') (Some 1)"
      and req' = "example_request ''getTestInfoAndStatus'' 21 ''TESTKEY'' (Some ''DEV-1'') (Some 1)"
      and cfg = example_config and s = example_running and i = 1 and now = 1000000060
      and now' = 1000010000 and maxNewton = 75 and maxNewton' = 80]
  by (simp add: example_request_def example_config_def example_running_def example_test_def)

text \<open>
  The claim as stated, for every test, fails for a test in \<^verbatim>\<open>PAUSE\<close>: auto-completion
  applies to \<^verbatim>\<open>RUN\<close> only (line 116), and the query keeps reporting \<^verbatim>\<open>PAUSE\<close> long
  after the duration.
\<close>

theorem status_query_counterexample:
  "test_status_code (list_of_tests example_server ! 1) = ''PAUSE'' \<and>
   sample_reception_epoch_time (list_of_tests example_server ! 1) + test_duration_seconds example_config \<le> 1000010000 \<and>
   fst (jsonrpc_handler example_config 1000010000 75
       (example_request ''getTestInfoAndStatus'' 20 ''TESTKEY'' (Some ''DEV-1'') (Some 1)) example_server) =
     Result (Inr 20) (JDict
       [(''status'', JStr ''OK''), (''test_description'', JStr ''T1''), (''specimen_code'', JStr ''002''),
        (''specimen_description'', JStr ''Spec1''), (''sample_reception_epoch_time'', JInt 1000000000),
        (''customer_id'', JInt 1), (''test_status_code'', JStr ''PAUSE'')])"
  by (simp add: jsonrpc_handler_def getTestInfoAndStatus_def jsonrpc_response_def dump_config_def
      Let_def example_request_def example_config_def example_server_def example_tests_def
      example_test_def)

text \<open>
  \<^verbatim>\<open>getTestAcquiredDataAndResults\<close> never reads \<^verbatim>\<open>device_id\<close>: replacing the
  parameter by any other value, or dropping it, changes neither the response nor the state.
\<close>

lemma acquired_data_ignores_device:
  assumes "req_method req = ''getTestAcquiredDataAndResults''"
  shows "jsonrpc_handler cfg now maxNewton (req\<lparr>req_params := (req_params req)\<lparr>param_device_id := d\<rparr>\<rparr>) s
    = jsonrpc_handler cfg now maxNewton req s"
  using assms
  by (simp add: jsonrpc_handler_def getTestAcquiredDataAndResults_def test_not_found_def Let_def
      split: option.split)

text \<open>
  Claim C7 (as amended). \<^verbatim>\<open>getTestAcquiredDataAndResults\<close> has no device-identity
  guard: for every call of the method, whatever the state, the time and the other
  parameters are, the response and the state after it are the same for every supplied
  \<^verbatim>\<open>device_id\<close>. For a test in \<^verbatim>\<open>RUN\<close> with \<^verbatim>\<open>sample_reception_epoch_time\<close>
  \<open>T\<close> and configured duration 60, a call (with a valid key) at \<open>T + 10000\<close> applies
  auto-completion (the stored test gets status \<^verbatim>\<open>END\<close> and \<^verbatim>\<open>stop_mode_id\<close> \<open>2\<close>,
  and the registry is written to the file); the response holds \<^verbatim>\<open>status\<close>
  \<^verbatim>\<open>OK\<close>, the test's stored channel data unchanged and \<^verbatim>\<open>stop_mode_id\<close> \<open>2\<close>, and
  it has no \<^verbatim>\<open>test_status_code\<close> member.
\<close>

theorem acquired_data_after_duration:
  assumes "req_method req = ''getTestAcquiredDataAndResults''"
  shows "jsonrpc_handler cfg now maxNewton (req\<lparr>req_params := (req_params req)\<lparr>param_device_id := d\<rparr>\<rparr>) s
      = jsonrpc_handler cfg now maxNewton req s
    \<and> (param_api_key (req_params req) = Some (API_KEY cfg) \<longrightarrow>
       find_test (list_of_tests s) (param_test_number (req_params req)) = Some i \<longrightarrow>
       test_status_code (list_of_tests s ! i) = ''RUN'' \<longrightarrow>
       test_duration_seconds cfg = 60 \<longrightarrow>
       now = sample_reception_epoch_time (list_of_tests s ! i) + 10000 \<longrightarrow>
       jsonrpc_handler cfg now maxNewton req s =
        (Result (req_id req) (JDict
           [(''status'', JStr ''OK''),
            (''list_of_channel_acquired_data'', JChannels (list_of_channel_acquired_data (list_of_tests s ! i))),
            (''stop_mode_id'', JInt 2)]),
         s\<lparr>list_of_tests := (list_of_tests s)
              [i := (list_of_tests s ! i)\<lparr>test_status_code := ''END'', stop_mode_id := Some 2\<rparr>],
           config_json := (list_of_tests s)
              [i := (list_of_tests s ! i)\<lparr>test_status_code := ''END'', stop_mode_id := Some 2\<rparr>]\<rparr>)
       \<and> result_field ''test_status_code'' (fst (jsonrpc_handler cfg now maxNewton req s)) = None)"
proof (intro conjI impI)
  show "jsonrpc_handler cfg now maxNewton (req\<lparr>req_params := (req_params req)\<lparr>param_device_id := d\<rparr>\<rparr>) s
      = jsonrpc_handler cfg now maxNewton req s"
    using assms by (rule acquired_data_ignores_device)
next
  assume hyps: "param_api_key (req_params req) = Some (API_KEY cfg)"
    "find_test (list_of_tests s) (param_test_number (req_params req)) = Some i"
    "test_status_code (list_of_tests s ! i) = ''RUN''"
    "test_duration_seconds cfg = 60"
    "now = sample_reception_epoch_time (list_of_tests s ! i) + 10000"
  with assms show run: "jsonrpc_handler cfg now maxNewton req s =
        (Result (req_id req) (JDict
           [(''status'', JStr ''OK''),
            (''list_of_channel_acquired_data'', JChannels (list_of_channel_acquired_data (list_of_tests s ! i))),
            (''stop_mode_id'', JInt 2)]),
         s\<lparr>list_of_tests := (list_of_tests s)
              [i := (list_of_tests s ! i)\<lparr>test_status_code := ''END'', stop_mode_id := Some 2\<rparr>],
           config_json := (list_of_tests s)
              [i := (list_of_tests s ! i)\<lparr>test_status_code := ''END'', stop_mode_id := Some 2\<rparr>]\<rparr>)"
    by (simp add: handler_authorised getTestAcquiredDataAndResults_def jsonrpc_response_def
        dump_config_def duration_elapsed_def Let_def)
  show "result_field ''test_status_code'' (fst (jsonrpc_handler cfg now maxNewton req s)) = None"
    unfolding run by (simp add: result_field_def)
qed

theorem acquired_data_after_duration_witness:
  "req_method (example_request ''getTestAcquiredDataAndResults'' 21 ''TESTKEY'' None (Some 1)) = ''getTestAcquiredDataAndResults'' \<and>
   param_api_key (req_params (example_request ''getTestAcquiredDataAndResults'' 21 ''TESTKEY'' None (Some 1)))
     = Some (API_KEY example_config) \<and>
   param_device_id (req_params (example_request ''getTestAcquiredDataAndResults'' 21 ''TESTKEY'' None (Some 1)))
     \<noteq> deviceId example_config \<and>
   find_test (list_of_tests example_running)
     (param_test_number (req_params (example_request ''getTestAcquiredDataAndResults'' 21 ''TESTKEY'' None (Some 1)))) = Some 1 \<and>
   test_status_code (list_of_tests example_running ! 1) = ''RUN'' \<and>
   test_duration_seconds example_config = 60 \<and>
   1000010000 = sample_reception_epoch_time (list_of_tests example_running ! 1) + 10000 \<and>
   jsonrpc_handler example_config 1000010000 75
       (example_request ''getTestAcquiredDataAndResults'' 21 ''TESTKEY'' (Some ''NOPE'') (Some 1)) example_running
     = jsonrpc_handler example_config 1000010000 75
       (example_request ''getTestAcquiredDataAndResults'' 21 ''TESTKEY'' None (Some 1)) example_running \<and>
   fst (jsonrpc_handler example_config 1000010000 75
       (example_request ''getTestAcquiredDataAndResults'' 21 ''TESTKEY'' None (Some 1)) example_running) =
     Result (Inr 21) (JDict
       [(''status'', JStr ''OK''),
        (''list_of_channel_acquired_data'', JChannels
           [\<lparr>stage_name = ''S'', sub_stage_index = 1, channel_type = ''Analog'', channel_index = 1,
             list_of_data_points = []\<rparr>]),
        (''stop_mode_id'', JInt 2)]) \<and>
   test_status_code (list_of_tests (snd (jsonrpc_handler example_config 1000010000 75
       (example_request ''getTestAcquiredDataAndResults'' 21 ''TESTKEY'' None (Some 1)) example_running)) ! 1) = ''END''"
  using acquired_data_after_duration [where req = "example_request ''getTestAcquiredDataAndResults'' 21 ''TESTKEY'' None (Some 1)"
      and cfg = example_config and s = example_running and i = 1 and now = 1000010000 and maxNewton = 75
      and d = "Some ''NOPE''"]
  by (simp add: example_request_def example_config_def example_running_def example_test_def)

text \<open>
  The claim as stated has the response report the status code \<^verbatim>\<open>END\<close>; the response
  of lines 170-172 carries no status code.
\<close>

theorem acquired_data_counterexample:
  "test_status_code (list_of_tests example_running ! 1) = ''RUN'' \<and>
   test_duration_seconds example_config = 60 \<and>
   1000010000 = sample_reception_epoch_time (list_of_tests example_running ! 1) + 10000 \<and>
   fst (jsonrpc_handler example_config 1000010000 75
       (example_request ''getTestAcquiredDataAndResults'' 21 ''TESTKEY'' None (Some 1)) example_running) =
     Result (Inr 21) (JDict
       [(''status'', JStr ''OK''),
        (''list_of_channel_acquired_data'', JChannels
           [\<lparr>stage_name = ''S'', sub_stage_index = 1, channel_type = ''Analog'', channel_index = 1,
             list_of_data_points = []\<rparr>]),
        (''stop_mode_id'', JInt 2)]) \<and>
   result_field ''test_status_code'' (fst (jsonrpc_handler example_config 1000010000 75
       (example_request ''getTestAcquiredDataAndResults'' 21 ''TESTKEY'' None (Some 1)) example_running))
     \<noteq> Some (JStr ''END'')"
  by (simp add: jsonrpc_handler_def getTestAcquiredDataAndResults_def jsonrpc_response_def
      dump_config_def duration_elapsed_def Let_def result_field_def example_request_def
      example_config_def example_running_def example_test_def)

end
